theory Spec2Isabelle
  imports Complex_Main "HOL-Library.Word"
begin

section \<open>JavaScript numbers and strings\<close>

text \<open>
  The widgets compute with JavaScript numbers. A number is a finite value, one of the
  two infinities, or NaN. A finite value is the real number the double stands for.
  Subtraction, multiplication and division round their exact result to a double: that
  rounding is the parameter \<open>fl\<close> of the operations below (round to nearest; a result
  too large for a double is not modelled). The remainder \<open>%\<close> and \<open>Math.floor\<close> are
  exact on doubles and need no rounding. The two zeros are one value (\<open>Num 0\<close>); a
  division by zero is a division by \<open>+0\<close>.
\<close>

datatype jsnum = Num real | PosInf | NegInf | NaN


text \<open>\<open>a > b\<close>: false as soon as one side is NaN.\<close>

fun js_gt :: "jsnum \<Rightarrow> jsnum \<Rightarrow> bool" where
  "js_gt NaN _ = False"
| "js_gt _ NaN = False"
| "js_gt (Num x) (Num y) = (y < x)"
| "js_gt PosInf PosInf = False"
| "js_gt PosInf _ = True"
| "js_gt NegInf _ = False"
| "js_gt (Num x) NegInf = True"
| "js_gt (Num x) PosInf = False"

fun js_div :: "(real \<Rightarrow> real) \<Rightarrow> jsnum \<Rightarrow> jsnum \<Rightarrow> jsnum" where
  "js_div fl NaN _ = NaN"
| "js_div fl _ NaN = NaN"
| "js_div fl (Num x) (Num y) =
     (if y = 0 then (if x = 0 then NaN else if 0 < x then PosInf else NegInf)
      else Num (fl (x / y)))"
| "js_div fl (Num x) _ = Num 0"
| "js_div fl PosInf (Num y) = (if y < 0 then NegInf else PosInf)"
| "js_div fl NegInf (Num y) = (if y < 0 then PosInf else NegInf)"
| "js_div fl _ _ = NaN"

fun js_mul :: "(real \<Rightarrow> real) \<Rightarrow> jsnum \<Rightarrow> jsnum \<Rightarrow> jsnum" where
  "js_mul fl NaN _ = NaN"
| "js_mul fl _ NaN = NaN"
| "js_mul fl (Num x) (Num y) = Num (fl (x * y))"
| "js_mul fl (Num x) PosInf = (if x = 0 then NaN else if 0 < x then PosInf else NegInf)"
| "js_mul fl (Num x) NegInf = (if x = 0 then NaN else if 0 < x then NegInf else PosInf)"
| "js_mul fl PosInf (Num y) = (if y = 0 then NaN else if 0 < y then PosInf else NegInf)"
| "js_mul fl NegInf (Num y) = (if y = 0 then NaN else if 0 < y then NegInf else PosInf)"
| "js_mul fl PosInf PosInf = PosInf"
| "js_mul fl NegInf NegInf = PosInf"
| "js_mul fl _ _ = NegInf"

text \<open>
  \<open>a % b\<close> is the remainder of the division truncated towards zero: it has the sign
  of the dividend. The remainder of two doubles is a double, so nothing is rounded.
\<close>

definition trunc :: "real \<Rightarrow> int" where
  "trunc q = (if 0 \<le> q then \<lfloor>q\<rfloor> else \<lceil>q\<rceil>)"

fun js_rem :: "jsnum \<Rightarrow> jsnum \<Rightarrow> jsnum" where
  "js_rem NaN _ = NaN"
| "js_rem _ NaN = NaN"
| "js_rem (Num x) (Num y) = (if y = 0 then NaN else Num (x - y * of_int (trunc (x / y))))"
| "js_rem (Num x) _ = Num x"
| "js_rem _ _ = NaN"

fun Math_floor :: "jsnum \<Rightarrow> jsnum" where
  "Math_floor (Num x) = Num (of_int \<lfloor>x\<rfloor>)"
| "Math_floor n = n"

text \<open>Decimal digits of a natural number, most significant first.\<close>

definition digit_char :: "nat \<Rightarrow> char" where
  "digit_char d = ''0123456789'' ! (d mod 10)"

function show_nat :: "nat \<Rightarrow> string" where
  "show_nat n = (if n < 10 then [digit_char n] else show_nat (n div 10) @ [digit_char (n mod 10)])"
  by pat_completeness auto
termination
  by (relation "measure id") auto

declare show_nat.simps [simp del]

definition show_int :: "int \<Rightarrow> string" where
  "show_int i = (if i < 0 then ''-'' @ show_nat (nat (- i)) else show_nat (nat i))"

text \<open>
  \<open>Number.prototype.toString\<close>. An integer below \<open>2^53\<close> in magnitude prints all
  its decimal digits. Every other finite number (a fraction, or a larger magnitude,
  where neighbouring doubles are more than 1 apart) prints as the shortest decimal
  that reads back as the same double, padded with zeros or in exponent notation:
  that rendering depends on the double's bits and is the parameter \<open>render\<close>.
\<close>

fun Number_toString :: "(real \<Rightarrow> string) \<Rightarrow> jsnum \<Rightarrow> string" where
  "Number_toString render (Num x) =
     (if of_int \<lfloor>x\<rfloor> = x \<and> \<bar>x\<bar> < 2 ^ 53 then show_int \<lfloor>x\<rfloor> else render x)"
| "Number_toString render PosInf = ''Infinity''"
| "Number_toString render NegInf = ''-Infinity''"
| "Number_toString render NaN = ''NaN''"

text \<open>\<open>String.prototype.padStart(n, c)\<close> for a one-character pad string.\<close>

definition padStart :: "nat \<Rightarrow> char \<Rightarrow> string \<Rightarrow> string" where
  "padStart n c s = (if length s < n then replicate (n - length s) c @ s else s)"

text \<open>
  \<open>formatTime\<close> of the recorder widgets (all four versions have the same body):
  \<^verbatim>\<open>
  const mins = Math.floor(seconds / 60);
  const secs = Math.floor(seconds % 60);
  return `${mins}:${secs.toString().padStart(2, '0')}`;
  \<close>
\<close>

definition formatTime_rec :: "(real \<Rightarrow> real) \<Rightarrow> (real \<Rightarrow> string) \<Rightarrow> jsnum \<Rightarrow> string" where
  "formatTime_rec fl render seconds =
     (let mins = Math_floor (js_div fl seconds (Num 60));
          secs = Math_floor (js_rem seconds (Num 60))
      in Number_toString render mins @ '':'' @ padStart 2 CHR ''0'' (Number_toString render secs))"


section \<open>Blobs, voice messages and effects\<close>

text \<open>
  A \<open>Blob\<close> is its bytes and its type string; \<open>blob.size\<close> is the byte count.
  \<open>new Blob(parts, { type })\<close> concatenates the parts.
\<close>

type_synonym byte = "8 word"

record blob =
  blob_bytes :: "byte list"
  blob_type :: string

definition blob_size :: "blob \<Rightarrow> nat" where
  "blob_size b = length (blob_bytes b)"

definition Blob_new :: "blob list \<Rightarrow> string \<Rightarrow> blob" where
  "Blob_new parts ty = \<lparr>blob_bytes = concat (map blob_bytes parts), blob_type = ty\<rparr>"

text \<open>An object URL made by \<open>URL.createObjectURL\<close> is a handle the host hands out.\<close>

type_synonym object_url = nat

text \<open>
  The object literal passed to \<open>onSend\<close>. The four recorder versions do not write the
  same keys, so a key that a version leaves out is \<open>None\<close>:
  \<^verbatim>\<open>{ type, audioBlob, rawDuration, size, mimeType }\<close> (three versions) and
  \<^verbatim>\<open>{ type, audioBlob, audioUrl, duration, size }\<close> (the version with pause and re-record).
\<close>

record voice_message =
  msg_type :: string
  msg_audioBlob :: blob
  msg_audioUrl :: "object_url option"
  msg_rawDuration :: "jsnum option"
  msg_duration :: "string option"
  msg_size :: nat
  msg_mimeType :: "string option"

text \<open>
  What a handler does to the world outside the component, in the order it does it.
  \<open>AudioPlay h\<close> is \<open>audio.play()\<close>: \<open>h\<close> is the message its \<open>.catch\<close> handler logs,
  \<open>None\<close> when the call has no \<open>.catch\<close>. \<open>SetCurrentTime t\<close> is the assignment
  \<open>audio.currentTime = t\<close>, with the value the component wrote. \<open>Uncaught\<close> is an
  exception that leaves the handler.
\<close>

datatype effect =
    ConsoleError string
  | ConsoleLog string
  | Alert string
  | OnClose
  | OnSend voice_message
  | GetUserMedia
  | AudioPlay "string option"
  | AudioPause
  | SetCurrentTime real
  | CreateObjectURL object_url
  | RevokeObjectURL object_url
  | Uncaught string

text \<open>
  The component code that runs when the promise of a \<open>play()\<close> call rejects: its
  \<open>.catch\<close> handler, which only logs; nothing when there is no handler.
\<close>

fun play_rejected :: "effect \<Rightarrow> effect list" where
  "play_rejected (AudioPlay (Some m)) = [ConsoleError m]"
| "play_rejected _ = []"

text \<open>A click on the progress bar: \<open>e.clientX\<close> and the bar's bounding rectangle.\<close>

record click =
  clientX :: real
  rect_left :: real
  rect_width :: real

section \<open>VoicePlayer.jsx\<close>

text \<open>
  The \<open>audio\<close> element of the player, as far as the component writes and reads it
  back: its \<open>muted\<close> flag. What the host reports (\<open>audio.duration\<close>,
  \<open>audio.currentTime\<close>) comes with the event that makes the component read it.
\<close>

record audio_element =
  muted :: bool

record player =
  isPlaying :: bool
  currentTime :: jsnum
  audioDuration :: jsnum
  isMuted :: bool
  isLoading :: bool
  audioRef :: "audio_element option"

definition player_init :: player where
  "player_init = \<lparr>isPlaying = False, currentTime = Num 0, audioDuration = Num 0,
     isMuted = False, isLoading = True, audioRef = Some \<lparr>muted = False\<rparr>\<rparr>"

definition handleLoadedMetadata :: "jsnum \<Rightarrow> player \<Rightarrow> player \<times> effect list" where
  "handleLoadedMetadata audio_duration s =
     (s\<lparr>audioDuration := audio_duration, isLoading := False\<rparr>, [])"

definition handleTimeUpdate :: "jsnum \<Rightarrow> player \<Rightarrow> player \<times> effect list" where
  "handleTimeUpdate audio_currentTime s = (s\<lparr>currentTime := audio_currentTime\<rparr>, [])"

definition handleEnded :: "player \<Rightarrow> player \<times> effect list" where
  "handleEnded s = (s\<lparr>isPlaying := False, currentTime := Num 0\<rparr>, [SetCurrentTime 0])"

definition handleCanPlay :: "player \<Rightarrow> player \<times> effect list" where
  "handleCanPlay s = (s\<lparr>isLoading := False\<rparr>, [])"

definition handleError :: "player \<Rightarrow> player \<times> effect list" where
  "handleError s = (s\<lparr>isLoading := False\<rparr>, [ConsoleError ''Audio failed to load''])"

definition togglePlayPause :: "player \<Rightarrow> player \<times> effect list" where
  "togglePlayPause s =
     (case audioRef s of
        None \<Rightarrow> (s, [])
      | Some audio \<Rightarrow>
          if isPlaying s then (s\<lparr>isPlaying := False\<rparr>, [AudioPause])
          else (s\<lparr>isPlaying := True\<rparr>, [AudioPlay (Some ''Audio play failed:'')]))"

definition toggleMute :: "player \<Rightarrow> player \<times> effect list" where
  "toggleMute s =
     (case audioRef s of
        None \<Rightarrow> (s, [])
      | Some audio \<Rightarrow>
          (s\<lparr>audioRef := Some (audio\<lparr>muted := \<not> isMuted s\<rparr>), isMuted := \<not> isMuted s\<rparr>, []))"

text \<open>
  \<^verbatim>\<open>
  if (!audio || audioDuration === 0) return;
  const clickX = e.clientX - rect.left;
  const newTime = (clickX / rect.width) * audioDuration;
  audio.currentTime = newTime;
  setCurrentTime(newTime);
  \<close>
  The setter of \<open>currentTime\<close> throws a TypeError on a value that is not finite, so
  the handler ends there.
\<close>

definition handleSeek :: "(real \<Rightarrow> real) \<Rightarrow> click \<Rightarrow> player \<Rightarrow> player \<times> effect list" where
  "handleSeek fl e s =
     (case audioRef s of
        None \<Rightarrow> (s, [])
      | Some audio \<Rightarrow>
          if audioDuration s = Num 0 then (s, [])
          else
            let clickX = fl (clientX e - rect_left e);
                newTime = js_mul fl (js_div fl (Num clickX) (Num (rect_width e))) (audioDuration s)
            in (case newTime of
                  Num t \<Rightarrow> (s\<lparr>currentTime := newTime\<rparr>, [SetCurrentTime t])
                | _ \<Rightarrow> (s, [Uncaught ''TypeError''])))"

text \<open>
  The events the player reacts to. The listeners exist once the \<open>audio\<close> element is
  mounted; the play button is disabled while \<open>isLoading\<close>.
\<close>

datatype player_event =
    LoadedMetadata jsnum
  | TimeUpdate jsnum
  | Ended
  | CanPlay
  | AudioError
  | ClickPlayPause
  | ClickMute
  | ClickSeek click

fun player_step :: "(real \<Rightarrow> real) \<Rightarrow> player_event \<Rightarrow> player \<Rightarrow> player \<times> effect list" where
  "player_step fl (LoadedMetadata d) s = (if audioRef s = None then (s, []) else handleLoadedMetadata d s)"
| "player_step fl (TimeUpdate t) s = (if audioRef s = None then (s, []) else handleTimeUpdate t s)"
| "player_step fl Ended s = (if audioRef s = None then (s, []) else handleEnded s)"
| "player_step fl CanPlay s = (if audioRef s = None then (s, []) else handleCanPlay s)"
| "player_step fl AudioError s = (if audioRef s = None then (s, []) else handleError s)"
| "player_step fl ClickPlayPause s = (if isLoading s then (s, []) else togglePlayPause s)"
| "player_step fl ClickMute s = toggleMute s"
| "player_step fl (ClickSeek e) s = handleSeek fl e s"

text \<open>The states the player reaches from its first render, whatever the host's rounding.\<close>

inductive player_reachable :: "player \<Rightarrow> bool" where
  start: "player_reachable player_init"
| step: "player_reachable s \<Longrightarrow> player_reachable (fst (player_step fl ev s))"

section \<open>The recorder widgets\<close>

text \<open>
  The repository holds four versions of the \<open>VoiceRecorder\<close> component. They share
  their state machine and differ in what happens when a recording stops and in the
  message they send:
  \<^item> \<open>Preview\<close>: VoiceRecorder.jsx, the first component of the file (playback of the
    recording before it is sent; sends \<open>rawDuration: duration\<close>);
  \<^item> \<open>Pausable\<close>: VoiceRecorder.jsx, the second component (pause, resume and
    re-record; sends \<open>duration: formatTime(duration)\<close>);
  \<^item> \<open>AutoSend\<close>: the first component of the unnamed source file (the \<open>onstop\<close>
    handler sends after a 100 ms timeout; there is no send button);
  \<^item> \<open>Manual\<close>: the second component of the unnamed source file (send button, sends
    \<open>rawDuration: recordingTime\<close>).
\<close>

datatype version = Preview | Pausable | AutoSend | Manual

text \<open>
  What the browser decides: whether \<open>navigator.mediaDevices\<close> exists, the MIME types
  \<open>MediaRecorder.isTypeSupported\<close> accepts, the type a recorder built without a
  \<open>mimeType\<close> option reports, the rounding of arithmetic to doubles, and the rendering
  of numbers that \<open>Number_toString\<close> leaves to the host.
\<close>

record host =
  mediaDevices :: bool
  supported :: "string list"
  default_mimeType :: string
  rounding :: "real \<Rightarrow> real"
  render :: "real \<Rightarrow> string"

datatype recorder_state = Inactive | Recording | Paused

text \<open>
  A \<open>MediaRecorder\<close> object. Its \<open>onstop\<close> handler is a closure made inside
  \<open>startRecording\<close>: the \<open>recordingTime\<close> it reads is the constant of the render
  whose \<open>startRecording\<close> was called, kept here as \<open>mr_recordingTime\<close>.
\<close>

record media_recorder =
  mr_state :: recorder_state
  mr_stream :: nat
  mr_mimeType :: string
  mr_recordingTime :: nat

text \<open>
  The component instance and the host objects it created. First the React state, then
  the refs (\<open>mediaRecorderRef\<close> and \<open>streamRef\<close> hold an index into \<open>recorders\<close> and
  \<open>streams\<close>; \<open>timerRef\<close> says whether the interval runs), the \<open>isOpen\<close> prop, and
  the host side: every stream handed out (\<open>True\<close> while its tracks are live), every
  recorder constructed, the \<open>getUserMedia\<close> calls not yet answered (each with the
  \<open>recordingTime\<close> of the render that made the call), the \<open>stop\<close> events and the
  timeouts not yet delivered, the number of detached \<open>Audio\<close> objects whose
  \<open>loadedmetadata\<close> is still to come, the next object URL, and the \<open>audioUrl\<close> seen
  by the cleanup function that the last run of the \<open>isOpen\<close> effect returned.
\<close>

record recorder =
  isRecording :: bool
  isPaused :: bool
  recordingTime :: nat
  audioBlob :: "blob option"
  audioUrl :: "object_url option"
  isPlaying :: bool
  playbackTime :: jsnum
  duration :: jsnum
  mediaRecorderRef :: "nat option"
  streamRef :: "nat option"
  chunksRef :: "blob list"
  timerRef :: bool
  isOpen :: bool
  streams :: "bool list"
  recorders :: "media_recorder list"
  requests :: "nat list"
  stop_events :: "nat list"
  timeouts :: "(blob \<times> nat) list"
  probes :: nat
  next_url :: object_url
  effect_audioUrl :: "object_url option"

definition recorder_init :: recorder where
  "recorder_init = \<lparr>isRecording = False, isPaused = False, recordingTime = 0,
     audioBlob = None, audioUrl = None, isPlaying = False, playbackTime = Num 0,
     duration = Num 0, mediaRecorderRef = None, streamRef = None, chunksRef = [],
     timerRef = False, isOpen = False, streams = [], recorders = [], requests = [],
     stop_events = [], timeouts = [], probes = 0, next_url = 0, effect_audioUrl = None\<rparr>"

text \<open>
  \<^verbatim>\<open>
  if (mediaRecorderRef.current && mediaRecorderRef.current.state !== 'inactive') {
    mediaRecorderRef.current.stop();
  }
  \<close>
  \<open>stop()\<close> makes the recorder inactive at once and queues its \<open>stop\<close> event.
\<close>

definition stop_mediaRecorder :: "recorder \<Rightarrow> recorder" where
  "stop_mediaRecorder w =
     (case mediaRecorderRef w of
        None \<Rightarrow> w
      | Some i \<Rightarrow>
          if i < length (recorders w) \<and> mr_state (recorders w ! i) \<noteq> Inactive
          then w\<lparr>recorders := (recorders w)[i := (recorders w ! i)\<lparr>mr_state := Inactive\<rparr>],
                 stop_events := stop_events w @ [i]\<rparr>
          else w)"

text \<open>
  \<^verbatim>\<open>
  if (streamRef.current) {
    streamRef.current.getTracks().forEach(track => track.stop());
  }
  \<close>
\<close>

definition stop_tracks :: "recorder \<Rightarrow> recorder" where
  "stop_tracks w =
     (case streamRef w of
        None \<Rightarrow> w
      | Some j \<Rightarrow> w\<lparr>streams := (streams w)[j := False]\<rparr>)"

text \<open>
  \<open>cleanup\<close>. The only state it reads is \<open>audioUrl\<close>, the constant of the render
  that made this \<open>cleanup\<close> closure: the argument \<open>closure_audioUrl\<close>. The two
  versions of the unnamed file have no \<open>audioUrl\<close>, \<open>isPlaying\<close>, \<open>playbackTime\<close> or
  \<open>duration\<close>; only \<open>Pausable\<close> has \<open>isPaused\<close>.
\<close>

definition cleanup :: "version \<Rightarrow> object_url option \<Rightarrow> recorder \<Rightarrow> recorder \<times> effect list" where
  "cleanup v closure_audioUrl w =
     (let w1 = stop_tracks (stop_mediaRecorder w);
          revoke = (if v = Preview \<or> v = Pausable
                    then (case closure_audioUrl of None \<Rightarrow> [] | Some u \<Rightarrow> [RevokeObjectURL u])
                    else []);
          w2 = w1\<lparr>timerRef := False, isRecording := False, recordingTime := 0,
                  audioBlob := None, chunksRef := []\<rparr>;
          w3 = (if v = Pausable then w2\<lparr>isPaused := False\<rparr> else w2);
          w4 = (if v = Preview \<or> v = Pausable
                then w3\<lparr>audioUrl := None, isPlaying := False, playbackTime := Num 0,
                        duration := Num 0\<rparr>
                else w3)
      in (w4, revoke))"

text \<open>The \<open>catch\<close> block of \<open>startRecording\<close>.\<close>

definition startRecording_catch :: "effect list" where
  "startRecording_catch =
     [ConsoleError ''Error starting recording:'',
      Alert ''Could not access microphone. Please check permissions.'',
      OnClose]"

text \<open>
  \<open>startRecording\<close> is an async function. Up to its \<open>await\<close> it only evaluates
  \<open>navigator.mediaDevices.getUserMedia(...)\<close>. Where \<open>navigator.mediaDevices\<close> is
  undefined that expression throws inside the \<open>try\<close>, and the \<open>catch\<close> block runs
  within the call. Otherwise the call is made and the rest runs when the host
  answers; the closure that runs then is the one that made the call, so the request
  keeps that render's \<open>recordingTime\<close>.
\<close>

definition startRecording :: "host \<Rightarrow> nat \<Rightarrow> recorder \<Rightarrow> recorder \<times> effect list" where
  "startRecording h closure_recordingTime w =
     (if mediaDevices h
      then (w\<lparr>requests := requests w @ [closure_recordingTime]\<rparr>, [GetUserMedia])
      else (w, startRecording_catch))"

text \<open>The \<open>mimeType\<close> option each version passes to the \<open>MediaRecorder\<close> constructor.\<close>

definition mimeType_option :: "version \<Rightarrow> host \<Rightarrow> string option" where
  "mimeType_option v h =
     (case v of
        AutoSend \<Rightarrow> Some ''audio/webm;codecs=opus''
      | Manual \<Rightarrow>
          if ''audio/webm;codecs=opus'' \<in> set (supported h) then Some ''audio/webm;codecs=opus''
          else if ''audio/webm'' \<in> set (supported h) then Some ''audio/webm''
          else if ''audio/mp4'' \<in> set (supported h) then Some ''audio/mp4''
          else None
      | _ \<Rightarrow>
          if ''audio/webm'' \<in> set (supported h) then Some ''audio/webm'' else Some ''audio/mp4'')"

text \<open>
  \<open>new MediaRecorder(stream, { mimeType })\<close>: throws (\<open>None\<close>) on a type the host does
  not support; otherwise the new recorder's \<open>mimeType\<close>.
\<close>

definition MediaRecorder_new :: "host \<Rightarrow> string option \<Rightarrow> string option" where
  "MediaRecorder_new h opt =
     (case opt of
        None \<Rightarrow> Some (default_mimeType h)
      | Some m \<Rightarrow> if m \<in> set (supported h) then Some m else None)"

text \<open>
  The \<open>try\<close> block after the \<open>await\<close>, when the host has handed out a stream (the next
  index of \<open>streams\<close>). \<open>mediaRecorder.start\<close> puts the new recorder in state
  \<open>recording\<close>.
\<close>

definition startRecording_granted :: "version \<Rightarrow> host \<Rightarrow> nat \<Rightarrow> recorder \<Rightarrow> recorder \<times> effect list" where
  "startRecording_granted v h closure_recordingTime w =
     (let stream = length (streams w);
          w1 = w\<lparr>streams := streams w @ [True], streamRef := Some stream\<rparr>
      in case MediaRecorder_new h (mimeType_option v h) of
           None \<Rightarrow> (w1, startRecording_catch)
         | Some mt \<Rightarrow>
             (w1\<lparr>recorders := recorders w1 @
                    [\<lparr>mr_state = Recording, mr_stream = stream, mr_mimeType = mt,
                      mr_recordingTime = closure_recordingTime\<rparr>],
                  mediaRecorderRef := Some (length (recorders w1)),
                  chunksRef := [],
                  isRecording := True,
                  recordingTime := 0\<rparr>, []))"

text \<open>The \<open>await\<close> rejected: access was denied, or there is no device.\<close>

definition startRecording_denied :: "recorder \<Rightarrow> recorder \<times> effect list" where
  "startRecording_denied w = (w, startRecording_catch)"

text \<open>\<open>mediaRecorder.ondataavailable\<close>.\<close>

definition ondataavailable :: "blob \<Rightarrow> recorder \<Rightarrow> recorder \<times> effect list" where
  "ondataavailable data w =
     (if 0 < blob_size data then (w\<lparr>chunksRef := chunksRef w @ [data]\<rparr>, []) else (w, []))"

text \<open>
  The voice message of the versions that send a raw duration.
\<close>

definition voiceMessage :: "blob \<Rightarrow> jsnum \<Rightarrow> voice_message" where
  "voiceMessage b d =
     \<lparr>msg_type = ''voice'', msg_audioBlob = b, msg_audioUrl = None,
      msg_rawDuration = Some d, msg_duration = None, msg_size = blob_size b,
      msg_mimeType = Some (blob_type b)\<rparr>"

text \<open>
  \<open>mediaRecorder.onstop\<close> of recorder \<open>i\<close>. Every version builds the blob from
  \<open>chunksRef.current\<close>. Then \<open>Preview\<close> makes an object URL and calls
  \<open>setDuration(recordingTime)\<close> with its closure's \<open>recordingTime\<close>; \<open>Pausable\<close>
  makes an object URL and a detached \<open>Audio\<close> whose \<open>loadedmetadata\<close> will set the
  duration; \<open>AutoSend\<close> arms the timeout that sends; \<open>Manual\<close> logs.
\<close>

definition onstop :: "version \<Rightarrow> nat \<Rightarrow> recorder \<Rightarrow> recorder \<times> effect list" where
  "onstop v i w =
     (if length (recorders w) \<le> i then (w, [])
      else
        let mr = recorders w ! i;
            b = Blob_new (chunksRef w)
                  (if v = AutoSend then ''audio/webm;codecs=opus''
                   else if mr_mimeType mr = [] then ''audio/webm'' else mr_mimeType mr);
            url = next_url w
        in (case v of
              Preview \<Rightarrow>
                (w\<lparr>audioBlob := Some b, audioUrl := Some url, next_url := url + 1,
                   duration := Num (real (mr_recordingTime mr))\<rparr>, [CreateObjectURL url])
            | Pausable \<Rightarrow>
                (w\<lparr>audioBlob := Some b, audioUrl := Some url, next_url := url + 1,
                   probes := probes w + 1\<rparr>,
                 [CreateObjectURL url])
            | AutoSend \<Rightarrow>
                (w\<lparr>audioBlob := Some b, timeouts := timeouts w @ [(b, mr_recordingTime mr)]\<rparr>, [])
            | Manual \<Rightarrow>
                (w\<lparr>audioBlob := Some b\<rparr>, [ConsoleLog ''Recording stopped, blob created:''])))"

text \<open>
  The timeout callback of \<open>AutoSend\<close>:
  \<^verbatim>\<open>if (blob && recordingTime > 0) { ...; onSend(voiceMessage); onClose(); }\<close>
  with the \<open>blob\<close> and the \<open>recordingTime\<close> of the \<open>onstop\<close> closure. A blob is an
  object, so \<open>blob\<close> is truthy.
\<close>

definition onstop_timeout :: "blob \<Rightarrow> nat \<Rightarrow> recorder \<Rightarrow> recorder \<times> effect list" where
  "onstop_timeout b closure_recordingTime w =
     (if 0 < closure_recordingTime
      then (w, [OnSend (voiceMessage b (Num (real closure_recordingTime))), OnClose])
      else (w, []))"

definition stopRecording :: "version \<Rightarrow> recorder \<Rightarrow> recorder \<times> effect list" where
  "stopRecording v w =
     (let w1 = stop_tracks (stop_mediaRecorder w);
          w2 = w1\<lparr>isRecording := False\<rparr>
      in (if v = Pausable then w2\<lparr>isPaused := False\<rparr> else w2, []))"

text \<open>\<open>pauseRecording\<close> and \<open>resumeRecording\<close> (\<open>Pausable\<close> only).\<close>

definition pauseRecording :: "recorder \<Rightarrow> recorder \<times> effect list" where
  "pauseRecording w =
     (case mediaRecorderRef w of
        None \<Rightarrow> (w, [])
      | Some i \<Rightarrow>
          if i < length (recorders w) \<and> mr_state (recorders w ! i) = Recording
          then (w\<lparr>recorders := (recorders w)[i := (recorders w ! i)\<lparr>mr_state := Paused\<rparr>],
                  isPaused := True\<rparr>, [])
          else (w, []))"

definition resumeRecording :: "recorder \<Rightarrow> recorder \<times> effect list" where
  "resumeRecording w =
     (case mediaRecorderRef w of
        None \<Rightarrow> (w, [])
      | Some i \<Rightarrow>
          if i < length (recorders w) \<and> mr_state (recorders w ! i) = Paused
          then (w\<lparr>recorders := (recorders w)[i := (recorders w ! i)\<lparr>mr_state := Recording\<rparr>],
                  isPaused := False\<rparr>, [])
          else (w, []))"

text \<open>
  The preview \<open>audio\<close> element of \<open>Preview\<close> and \<open>Pausable\<close> is rendered under
  \<^verbatim>\<open>{audioBlob && audioUrl && ( ... <audio ref={audioRef} .../> ... )}\<close>
  inside an open widget, so \<open>audioRef.current\<close> is set exactly then.
\<close>

definition audioRef_current :: "recorder \<Rightarrow> bool" where
  "audioRef_current w = (isOpen w \<and> audioBlob w \<noteq> None \<and> audioUrl w \<noteq> None)"

text \<open>
  \<open>playAudio\<close>: \<open>Preview\<close> calls \<open>play().catch(...)\<close>, \<open>Pausable\<close> calls \<open>play()\<close>
  with no handler for a rejection.
\<close>

definition playAudio :: "version \<Rightarrow> recorder \<Rightarrow> recorder \<times> effect list" where
  "playAudio v w =
     (if audioRef_current w
      then (w\<lparr>isPlaying := True\<rparr>,
            [AudioPlay (if v = Preview then Some ''Audio play failed:'' else None)])
      else (w, []))"

definition pauseAudio :: "recorder \<Rightarrow> recorder \<times> effect list" where
  "pauseAudio w =
     (if audioRef_current w then (w\<lparr>isPlaying := False\<rparr>, [AudioPause]) else (w, []))"

definition handleAudioTimeUpdate :: "jsnum \<Rightarrow> recorder \<Rightarrow> recorder \<times> effect list" where
  "handleAudioTimeUpdate audio_currentTime w =
     (if audioRef_current w then (w\<lparr>playbackTime := audio_currentTime\<rparr>, []) else (w, []))"

definition handleAudioEnded :: "recorder \<Rightarrow> recorder \<times> effect list" where
  "handleAudioEnded w =
     (w\<lparr>isPlaying := False, playbackTime := Num 0\<rparr>,
      if audioRef_current w then [SetCurrentTime 0] else [])"

text \<open>
  \<open>handleAudioLoadedMetadata\<close> (inline in \<open>Pausable\<close>):
  \<^verbatim>\<open>if (audioRef.current) { setDuration(audioRef.current.duration); }\<close>
\<close>

definition handleAudioLoadedMetadata :: "jsnum \<Rightarrow> recorder \<Rightarrow> recorder \<times> effect list" where
  "handleAudioLoadedMetadata audio_duration w =
     (if audioRef_current w then (w\<lparr>duration := audio_duration\<rparr>, []) else (w, []))"

text \<open>
  The \<open>loadedmetadata\<close> listener of the detached \<open>new Audio(url)\<close> that the \<open>onstop\<close>
  handler of \<open>Pausable\<close> makes: \<^verbatim>\<open>setDuration(audio.duration)\<close>, whatever the
  state of the widget by then.
\<close>

definition probe_loadedmetadata :: "jsnum \<Rightarrow> recorder \<Rightarrow> recorder \<times> effect list" where
  "probe_loadedmetadata audio_duration w = (w\<lparr>duration := audio_duration\<rparr>, [])"

text \<open>
  \<open>handleSeek\<close> of the recorder (\<open>Preview\<close> and \<open>Pausable\<close>):
  \<^verbatim>\<open>
  if (audioRef.current && duration > 0) {
    const clickX = e.clientX - rect.left;
    const newTime = (clickX / rect.width) * duration;
    audioRef.current.currentTime = newTime;
    setPlaybackTime(newTime);
  }
  \<close>
\<close>

definition handleSeek_rec :: "host \<Rightarrow> click \<Rightarrow> recorder \<Rightarrow> recorder \<times> effect list" where
  "handleSeek_rec h e w =
     (if audioRef_current w \<and> js_gt (duration w) (Num 0)
      then
        let clickX = rounding h (clientX e - rect_left e);
            newTime = js_mul (rounding h)
                        (js_div (rounding h) (Num clickX) (Num (rect_width e))) (duration w)
        in (case newTime of
              Num t \<Rightarrow> (w\<lparr>playbackTime := newTime\<rparr>, [SetCurrentTime t])
            | _ \<Rightarrow> (w, [Uncaught ''TypeError'']))
      else (w, []))"

text \<open>
  \<open>handleSend\<close>, with the state of the render whose button was clicked.
  \<open>Preview\<close>: \<^verbatim>\<open>if (audioBlob) { ... rawDuration: duration ... }\<close>;
  \<open>Pausable\<close>: \<^verbatim>\<open>if (audioBlob && audioUrl) { ... audioUrl, duration: formatTime(duration), size ... }\<close>;
  \<open>Manual\<close>: \<^verbatim>\<open>if (audioBlob && recordingTime > 0) { ... rawDuration: recordingTime ... }\<close>,
  which also logs the message. \<open>AutoSend\<close> has no \<open>handleSend\<close>.
\<close>

definition handleSend :: "version \<Rightarrow> host \<Rightarrow> recorder \<Rightarrow> recorder \<times> effect list" where
  "handleSend v h w =
     (case v of
        Preview \<Rightarrow>
          (case audioBlob w of
             None \<Rightarrow> (w, [])
           | Some b \<Rightarrow> (w, [OnSend (voiceMessage b (duration w)), OnClose]))
      | Pausable \<Rightarrow>
          (case (audioBlob w, audioUrl w) of
             (Some b, Some u) \<Rightarrow>
               (w, [OnSend \<lparr>msg_type = ''voice'', msg_audioBlob = b, msg_audioUrl = Some u,
                            msg_rawDuration = None,
                            msg_duration = Some (formatTime_rec (rounding h) (render h) (duration w)),
                            msg_size = blob_size b, msg_mimeType = None\<rparr>,
                    OnClose])
           | _ \<Rightarrow> (w, []))
      | Manual \<Rightarrow>
          (case audioBlob w of
             None \<Rightarrow> (w, [])
           | Some b \<Rightarrow>
               if 0 < recordingTime w
               then (w, [ConsoleLog ''Sending voice message:'',
                         OnSend (voiceMessage b (Num (real (recordingTime w)))), OnClose])
               else (w, []))
      | AutoSend \<Rightarrow> (w, []))"

definition handleCancel :: "version \<Rightarrow> recorder \<Rightarrow> recorder \<times> effect list" where
  "handleCancel v w = (let (w1, out) = cleanup v (audioUrl w) w in (w1, out @ [OnClose]))"

text \<open>
  The Re-record button of \<open>Pausable\<close>: \<^verbatim>\<open>onClick={() => { cleanup(); startRecording(); }}\<close>.
  Both closures belong to the render of the click.
\<close>

definition reRecord :: "version \<Rightarrow> host \<Rightarrow> recorder \<Rightarrow> recorder \<times> effect list" where
  "reRecord v h w =
     (let (w1, out1) = cleanup v (audioUrl w) w;
          (w2, out2) = startRecording h (recordingTime w) w1
      in (w2, out1 @ out2))"

text \<open>
  The effect on \<open>[isOpen]\<close>:
  \<^verbatim>\<open>
  useEffect(() => {
    if (isOpen) { startRecording(); } else { cleanup(); }
    return () => cleanup();
  }, [isOpen]);
  \<close>
  \<open>useEffect_isOpen\<close> is its body, run with the closures of the render \<open>r\<close> in which
  \<open>isOpen\<close> changed; the function it returns keeps that render's \<open>cleanup\<close>.
\<close>

definition useEffect_isOpen :: "version \<Rightarrow> host \<Rightarrow> recorder \<Rightarrow> recorder \<Rightarrow> recorder \<times> effect list" where
  "useEffect_isOpen v h r w =
     (let (w1, out) = (if isOpen r then startRecording h (recordingTime r) w
                       else cleanup v (audioUrl r) w)
      in (w1\<lparr>effect_audioUrl := audioUrl r\<rparr>, out))"

text \<open>The first render of a component mounted with \<open>isOpen = b\<close>.\<close>

definition mount :: "version \<Rightarrow> host \<Rightarrow> bool \<Rightarrow> recorder \<times> effect list" where
  "mount v h b = (let r = recorder_init\<lparr>isOpen := b\<rparr> in useEffect_isOpen v h r r)"

text \<open>
  The parent changes the \<open>isOpen\<close> prop: React first runs the function the previous
  run of the effect returned (a \<open>cleanup\<close> of an earlier render), then the body.
\<close>

definition setOpen :: "version \<Rightarrow> host \<Rightarrow> bool \<Rightarrow> recorder \<Rightarrow> recorder \<times> effect list" where
  "setOpen v h b w =
     (if isOpen w = b then (w, [])
      else
        let r = w\<lparr>isOpen := b\<rparr>;
            (w1, out1) = cleanup v (effect_audioUrl w) r;
            (w2, out2) = useEffect_isOpen v h r w1
        in (w2, out1 @ out2))"

text \<open>
  The effect on \<open>[isRecording]\<close> (\<open>[isRecording, isPaused]\<close> in \<open>Pausable\<close>): after a
  render the interval runs exactly when \<open>isRecording\<close> (and not \<open>isPaused\<close>).
\<close>

definition useEffect_timer :: "version \<Rightarrow> recorder \<Rightarrow> recorder" where
  "useEffect_timer v w = w\<lparr>timerRef := (isRecording w \<and> \<not> (v = Pausable \<and> isPaused w))\<rparr>"

text \<open>The interval callback: \<^verbatim>\<open>setRecordingTime(prev => prev + 1)\<close>.\<close>

definition tick :: "recorder \<Rightarrow> recorder \<times> effect list" where
  "tick w = (w\<lparr>recordingTime := recordingTime w + 1\<rparr>, [])"

text \<open>
  What can happen to a recorder: the parent opens or closes it, the host answers a
  \<open>getUserMedia\<close> call, the interval fires, a recorder delivers data or its \<open>stop\<close>
  event, a timeout fires, the preview audio reports, and the user clicks a button.
\<close>

datatype rec_event =
    SetOpen bool
  | Grant
  | Deny
  | Tick
  | DataAvailable blob
  | StopEvent
  | Timeout
  | ProbeLoadedMetadata jsnum
  | AudioLoadedMetadata jsnum
  | AudioTimeUpdate jsnum
  | AudioEnded
  | ClickStart
  | ClickStop
  | ClickPauseResume
  | ClickCancel
  | ClickSend
  | ClickReRecord
  | ClickPlayPauseAudio
  | ClickSeekAudio click

text \<open>
  One event, guarded by what exists when it happens: a button must be rendered (the
  component renders nothing while \<open>isOpen\<close> is false, the Stop button only while
  recording, the Start button only while idle, the footer only with a blob), the host
  answers only a call that was made, and delivers only events that are queued. The
  host answers the calls in the order they were made.
\<close>

definition handle :: "version \<Rightarrow> host \<Rightarrow> rec_event \<Rightarrow> recorder \<Rightarrow> recorder \<times> effect list" where
  "handle v h ev w =
     (case ev of
        SetOpen b \<Rightarrow> setOpen v h b w
      | Grant \<Rightarrow>
          (case requests w of
             [] \<Rightarrow> (w, [])
           | rt # rest \<Rightarrow> startRecording_granted v h rt (w\<lparr>requests := rest\<rparr>))
      | Deny \<Rightarrow>
          (case requests w of
             [] \<Rightarrow> (w, [])
           | rt # rest \<Rightarrow> startRecording_denied (w\<lparr>requests := rest\<rparr>))
      | Tick \<Rightarrow> if timerRef w then tick w else (w, [])
      | DataAvailable data \<Rightarrow> if recorders w = [] then (w, []) else ondataavailable data w
      | StopEvent \<Rightarrow>
          (case stop_events w of
             [] \<Rightarrow> (w, [])
           | i # rest \<Rightarrow> onstop v i (w\<lparr>stop_events := rest\<rparr>))
      | Timeout \<Rightarrow>
          if v = AutoSend
          then (case timeouts w of
                  [] \<Rightarrow> (w, [])
                | (b, rt) # rest \<Rightarrow> onstop_timeout b rt (w\<lparr>timeouts := rest\<rparr>))
          else (w, [])
      | ProbeLoadedMetadata d \<Rightarrow>
          if v = Pausable \<and> 0 < probes w
          then probe_loadedmetadata d (w\<lparr>probes := probes w - 1\<rparr>) else (w, [])
      | AudioLoadedMetadata d \<Rightarrow>
          if (v = Preview \<or> v = Pausable) \<and> audioRef_current w
          then handleAudioLoadedMetadata d w else (w, [])
      | AudioTimeUpdate t \<Rightarrow>
          if (v = Preview \<or> v = Pausable) \<and> audioRef_current w
          then handleAudioTimeUpdate t w else (w, [])
      | AudioEnded \<Rightarrow>
          if (v = Preview \<or> v = Pausable) \<and> audioRef_current w
          then handleAudioEnded w else (w, [])
      | ClickStart \<Rightarrow>
          if isOpen w \<and> \<not> isRecording w \<and> (v = AutoSend \<or> audioBlob w = None)
          then startRecording h (recordingTime w) w else (w, [])
      | ClickStop \<Rightarrow> if isOpen w \<and> isRecording w then stopRecording v w else (w, [])
      | ClickPauseResume \<Rightarrow>
          if v = Pausable \<and> isOpen w \<and> isRecording w
          then (if isPaused w then resumeRecording w else pauseRecording w)
          else (w, [])
      | ClickCancel \<Rightarrow> if isOpen w then handleCancel v w else (w, [])
      | ClickSend \<Rightarrow>
          if isOpen w \<and> audioBlob w \<noteq> None \<and> v \<noteq> AutoSend \<and> \<not> (v = Manual \<and> isRecording w)
          then handleSend v h w else (w, [])
      | ClickReRecord \<Rightarrow>
          if v = Pausable \<and> isOpen w \<and> audioBlob w \<noteq> None then reRecord v h w else (w, [])
      | ClickPlayPauseAudio \<Rightarrow>
          if (v = Preview \<or> v = Pausable) \<and> audioRef_current w
          then (if isPlaying w then pauseAudio w else playAudio v w)
          else (w, [])
      | ClickSeekAudio e \<Rightarrow>
          if (v = Preview \<or> v = Pausable) \<and> audioRef_current w
          then handleSeek_rec h e w else (w, []))"

text \<open>An event, then the render it causes and the timer effect of that render.\<close>

definition recorder_step :: "version \<Rightarrow> host \<Rightarrow> rec_event \<Rightarrow> recorder \<Rightarrow> recorder \<times> effect list" where
  "recorder_step v h ev w = (let (w1, out) = handle v h ev w in (useEffect_timer v w1, out))"

text \<open>A sequence of events; the effects are collected in order.\<close>

fun run :: "version \<Rightarrow> host \<Rightarrow> rec_event list \<Rightarrow> recorder \<times> effect list \<Rightarrow> recorder \<times> effect list" where
  "run v h [] acc = acc"
| "run v h (ev # evs) (w, out) =
     (let (w1, out1) = recorder_step v h ev w in run v h evs (w1, out @ out1))"

text \<open>The messages handed to \<open>onSend\<close>, in order.\<close>

fun sent :: "effect list \<Rightarrow> voice_message list" where
  "sent [] = []"
| "sent (OnSend m # out) = m # sent out"
| "sent (_ # out) = sent out"

text \<open>
  While a recording runs, the host delivers interval ticks and chunks of data. The
  chunks such a stretch of events delivers, and whether a list of events is such a
  stretch:
\<close>

fun capture_event :: "rec_event \<Rightarrow> bool" where
  "capture_event Tick = True"
| "capture_event (DataAvailable c) = True"
| "capture_event _ = False"

fun chunks_of :: "rec_event list \<Rightarrow> blob list" where
  "chunks_of [] = []"
| "chunks_of (DataAvailable c # evs) = c # chunks_of evs"
| "chunks_of (_ # evs) = chunks_of evs"

text \<open>
  The two outcomes of opening the widget, as a result of the step that answers the
  device request: the recording has started from 0 with the timer running, or the
  error was logged, the alert shown and \<open>onClose\<close> called.
\<close>

definition recording_started :: "recorder \<times> effect list \<Rightarrow> bool" where
  "recording_started r =
     (isRecording (fst r) \<and> recordingTime (fst r) = 0 \<and> timerRef (fst r) \<and> snd r = [])"

definition closed_with_alert :: "recorder \<times> effect list \<Rightarrow> bool" where
  "closed_with_alert r =
     (\<not> isRecording (fst r) \<and> \<not> timerRef (fst r) \<and>
      snd r = [ConsoleError ''Error starting recording:'',
               Alert ''Could not access microphone. Please check permissions.'',
               OnClose])"

text \<open>The sessions the host still holds open: live streams and recorders not inactive.\<close>

definition live_streams :: "recorder \<Rightarrow> nat" where
  "live_streams w = length (filter (\<lambda>live. live) (streams w))"

definition active_recorders :: "recorder \<Rightarrow> nat" where
  "active_recorders w = length (filter (\<lambda>mr. mr_state mr \<noteq> Inactive) (recorders w))"

text \<open>
  Concrete hosts and a concrete chunk of recorded data, for the runs evaluated below:
  a browser that records WebM/Opus, a browser that records only MP4, and three bytes
  of audio. The runs compute with numbers on which the arithmetic is exact, so the
  rounding of these hosts is the identity.
\<close>

definition host_webm :: host where
  "host_webm = \<lparr>mediaDevices = True,
     supported = [''audio/webm;codecs=opus'', ''audio/webm''],
     default_mimeType = ''audio/webm;codecs=opus'',
     rounding = (\<lambda>x. x), render = (\<lambda>x. ''?'')\<rparr>"

definition host_mp4 :: host where
  "host_mp4 = \<lparr>mediaDevices = True, supported = [''audio/mp4''],
     default_mimeType = ''audio/mp4'', rounding = (\<lambda>x. x), render = (\<lambda>x. ''?'')\<rparr>"

definition chunk3 :: blob where
  "chunk3 = \<lparr>blob_bytes = [1, 2, 3], blob_type = ''audio/webm;codecs=opus''\<rparr>"


section \<open>Properties of formatTime\<close>

lemma show_nat_small: "n < 10 \<Longrightarrow> show_nat n = [digit_char n]"
  by (subst show_nat.simps) simp




lemma secs_bounds:
  fixes x :: real
  assumes "0 \<le> x"
  shows "0 \<le> \<lfloor>x - 60 * of_int \<lfloor>x / 60\<rfloor>\<rfloor>" "\<lfloor>x - 60 * of_int \<lfloor>x / 60\<rfloor>\<rfloor> < 60"
proof -
  have a: "of_int \<lfloor>x / 60\<rfloor> \<le> x / 60" by (rule of_int_floor_le)
  have b: "x / 60 < of_int \<lfloor>x / 60\<rfloor> + 1" by linarith
  from a have "60 * of_int \<lfloor>x / 60\<rfloor> \<le> x" by (simp add: field_simps)
  then have "0 \<le> x - 60 * of_int \<lfloor>x / 60\<rfloor>" by linarith
  then show "0 \<le> \<lfloor>x - 60 * of_int \<lfloor>x / 60\<rfloor>\<rfloor>" by simp
  from b have "x < 60 * (of_int \<lfloor>x / 60\<rfloor> + 1)" by (simp add: field_simps)
  then have "x - 60 * of_int \<lfloor>x / 60\<rfloor> < 60" by linarith
  then show "\<lfloor>x - 60 * of_int \<lfloor>x / 60\<rfloor>\<rfloor> < 60" by (simp add: floor_less_iff)
qed








section \<open>Claims about the player\<close>



lemmas player_defs = handleLoadedMetadata_def handleTimeUpdate_def handleEnded_def handleCanPlay_def
  handleError_def togglePlayPause_def toggleMute_def handleSeek_def

lemma player_audio_mounted: "player_reachable s \<Longrightarrow> audioRef s \<noteq> None"
proof (induction rule: player_reachable.induct)
  case start
  show ?case by (simp add: player_init_def)
next
  case (step s fl ev)
  then show ?case
    by (cases ev) (auto simp: player_defs Let_def split: option.splits jsnum.splits)
qed

lemma player_muted_agrees:
  "player_reachable s \<Longrightarrow> audioRef s = Some a \<Longrightarrow> muted a = isMuted s"
proof (induction arbitrary: a rule: player_reachable.induct)
  case start
  then show ?case by (auto simp: player_init_def)
next
  case (step s fl ev)
  then show ?case
    by (cases ev) (auto simp: player_defs Let_def split: option.splits jsnum.splits if_splits)
qed

text \<open>
  C6. For every state the player can reach, applying the mute toggle twice gives the
  starting state back: the flag \<open>isMuted\<close> and the element's \<open>muted\<close> are flipped by
  the first application and restored by the second, and nothing else changes.
\<close>

theorem toggleMute_twice:
  assumes "player_reachable s"
  shows "fst (toggleMute (fst (toggleMute s))) = s
         \<and> snd (toggleMute s) = [] \<and> snd (toggleMute (fst (toggleMute s))) = []
         \<and> isMuted (fst (toggleMute s)) = (\<not> isMuted s)
         \<and> map_option muted (audioRef (fst (toggleMute s))) = Some (\<not> isMuted s)"
proof -
  from assms obtain a where a: "audioRef s = Some a"
    using player_audio_mounted by blast
  with assms have m: "muted a = isMuted s" by (rule player_muted_agrees)
  define s1 where "s1 = s\<lparr>audioRef := Some (a\<lparr>muted := \<not> isMuted s\<rparr>), isMuted := \<not> isMuted s\<rparr>"
  have one: "toggleMute s = (s1, [])"
    by (simp add: toggleMute_def a s1_def)
  have restore: "a\<lparr>muted := isMuted s\<rparr> = a" using m by simp
  have "s\<lparr>audioRef := Some a\<rparr> = s" using a by (cases s) simp
  then have same: "s1\<lparr>audioRef := Some (a\<lparr>muted := isMuted s\<rparr>), isMuted := isMuted s\<rparr> = s"
    by (simp add: s1_def restore)
  have "toggleMute s1 = (s1\<lparr>audioRef := Some (a\<lparr>muted := isMuted s\<rparr>), isMuted := isMuted s\<rparr>, [])"
    by (simp add: toggleMute_def s1_def)
  then have two: "toggleMute s1 = (s, [])" by (simp only: same)
  show ?thesis by (simp add: one two) (simp add: s1_def)
qed

theorem toggleMute_twice_witness:
  "player_reachable (fst (player_step (\<lambda>x. x) ClickMute player_init))
   \<and> fst (toggleMute (fst (toggleMute (fst (player_step (\<lambda>x. x) ClickMute player_init)))))
       = fst (player_step (\<lambda>x. x) ClickMute player_init)
   \<and> isMuted (fst (player_step (\<lambda>x. x) ClickMute player_init))
   \<and> \<not> isMuted (fst (toggleMute (fst (player_step (\<lambda>x. x) ClickMute player_init))))"
proof -
  have r: "player_reachable (fst (player_step (\<lambda>x. x) ClickMute player_init))"
    by (rule player_reachable.step) (rule player_reachable.start)
  have m: "isMuted (fst (player_step (\<lambda>x. x) ClickMute player_init))"
    by (simp add: toggleMute_def player_init_def)
  show ?thesis using r m toggleMute_twice [OF r] by simp
qed

lemma seek_in_range:
  fixes d cx width :: real
  assumes "0 < d" "0 < width" "0 \<le> cx" "cx \<le> width"
  shows "0 \<le> cx / width * d" "cx / width * d \<le> d"
proof -
  have f0: "0 \<le> cx / width" using assms by simp
  have f1: "cx / width \<le> 1" using assms by simp
  show "0 \<le> cx / width * d" using f0 assms(1) by (intro mult_nonneg_nonneg) simp_all
  have "cx / width * d \<le> 1 * d" using f1 assms(1) by (intro mult_right_mono) simp_all
  then show "cx / width * d \<le> d" by simp
qed

text \<open>
  A rounding to the nearest double is monotone and leaves doubles as they are; 0 and
  1 are doubles, and so is a duration \<open>d\<close> the component holds.
\<close>

lemma seek_in_range_rounded:
  fixes d cx width :: real
  assumes "0 < d" "0 < width" "0 \<le> cx" "cx \<le> width"
    and mono: "\<forall>a b. a \<le> b \<longrightarrow> fl a \<le> fl b"
    and keep: "fl 0 = 0" "fl 1 = 1" "fl d = d"
  shows "0 \<le> fl (fl (cx / width) * d)" "fl (fl (cx / width) * d) \<le> d"
proof -
  have "0 \<le> cx / width" "cx / width \<le> 1" using assms(2-4) by simp_all
  then have r: "0 \<le> fl (cx / width)" "fl (cx / width) \<le> 1"
    using mono keep(1,2) by metis+
  have "0 \<le> fl (cx / width) * d" using r(1) assms(1) by (intro mult_nonneg_nonneg) simp_all
  then show "0 \<le> fl (fl (cx / width) * d)" using mono keep(1) by metis
  have "fl (cx / width) * d \<le> 1 * d" using r(2) assms(1) by (intro mult_right_mono) simp_all
  then have "fl (cx / width) * d \<le> d" by simp
  then show "fl (fl (cx / width) * d) \<le> d" using mono keep(3) by metis
qed

text \<open>
  C5, as the code has it. A seek at horizontal fraction \<open>f = clickX / width\<close> on a
  bar of positive width, with a finite duration \<open>d > 0\<close>, assigns \<open>f * d\<close> to the
  element's \<open>currentTime\<close> and to the component's own time state, unclamped: the
  value lies in \<open>[0, d]\<close> when the click lies within the bar. A seek while the
  duration is 0 changes nothing. The same holds for the player and for the preview
  of the recorder. The difference, the quotient and the product are each rounded to
  a double by the host; with exact arithmetic the value is \<open>f * d\<close> itself.
\<close>

theorem handleSeek_unclamped:
  assumes "0 < d" "0 < rect_width e"
  shows "(audioRef s \<noteq> None \<and> audioDuration s = Num d \<longrightarrow>
            handleSeek fl e s =
              (s\<lparr>currentTime := Num (fl (fl (fl (clientX e - rect_left e) / rect_width e) * d))\<rparr>,
               [SetCurrentTime (fl (fl (fl (clientX e - rect_left e) / rect_width e) * d))]))
         \<and> (audioRef_current w \<and> duration w = Num d \<and> rounding h = fl \<longrightarrow>
            handleSeek_rec h e w =
              (w\<lparr>playbackTime := Num (fl (fl (fl (clientX e - rect_left e) / rect_width e) * d))\<rparr>,
               [SetCurrentTime (fl (fl (fl (clientX e - rect_left e) / rect_width e) * d))]))
         \<and> (fl = (\<lambda>x. x) \<longrightarrow>
              fl (fl (fl (clientX e - rect_left e) / rect_width e) * d)
                = (clientX e - rect_left e) / rect_width e * d)
         \<and> (0 \<le> clientX e - rect_left e \<and> clientX e - rect_left e \<le> rect_width e \<longrightarrow>
            0 \<le> (clientX e - rect_left e) / rect_width e * d
            \<and> (clientX e - rect_left e) / rect_width e * d \<le> d)
         \<and> ((\<forall>a b. a \<le> b \<longrightarrow> fl a \<le> fl b) \<and> fl 0 = 0 \<and> fl 1 = 1 \<and> fl d = d
             \<and> 0 \<le> fl (clientX e - rect_left e) \<and> fl (clientX e - rect_left e) \<le> rect_width e \<longrightarrow>
            0 \<le> fl (fl (fl (clientX e - rect_left e) / rect_width e) * d)
            \<and> fl (fl (fl (clientX e - rect_left e) / rect_width e) * d) \<le> d)
         \<and> (audioDuration s = Num 0 \<longrightarrow> handleSeek fl e s = (s, []))
         \<and> (duration w = Num 0 \<longrightarrow> handleSeek_rec h e w = (w, []))"
proof -
  let ?t = "fl (fl (fl (clientX e - rect_left e) / rect_width e) * d)"
  have p: "audioRef s \<noteq> None \<and> audioDuration s = Num d \<longrightarrow>
      handleSeek fl e s = (s\<lparr>currentTime := Num ?t\<rparr>, [SetCurrentTime ?t])"
    using assms by (auto simp: handleSeek_def Let_def)
  have r: "audioRef_current w \<and> duration w = Num d \<and> rounding h = fl \<longrightarrow>
      handleSeek_rec h e w = (w\<lparr>playbackTime := Num ?t\<rparr>, [SetCurrentTime ?t])"
    using assms by (auto simp: handleSeek_rec_def Let_def)
  have x: "fl = (\<lambda>x. x) \<longrightarrow> ?t = (clientX e - rect_left e) / rect_width e * d"
    by simp
  have b: "0 \<le> clientX e - rect_left e \<and> clientX e - rect_left e \<le> rect_width e \<longrightarrow>
      0 \<le> (clientX e - rect_left e) / rect_width e * d
      \<and> (clientX e - rect_left e) / rect_width e * d \<le> d"
    using seek_in_range [OF assms] by blast
  have br: "(\<forall>a b. a \<le> b \<longrightarrow> fl a \<le> fl b) \<and> fl 0 = 0 \<and> fl 1 = 1 \<and> fl d = d
      \<and> 0 \<le> fl (clientX e - rect_left e) \<and> fl (clientX e - rect_left e) \<le> rect_width e \<longrightarrow>
      0 \<le> ?t \<and> ?t \<le> d"
    using seek_in_range_rounded [OF assms, of "fl (clientX e - rect_left e)" fl] by blast
  have z: "audioDuration s = Num 0 \<longrightarrow> handleSeek fl e s = (s, [])"
    by (simp add: handleSeek_def split: option.splits)
  have zr: "duration w = Num 0 \<longrightarrow> handleSeek_rec h e w = (w, [])"
    by (simp add: handleSeek_rec_def)
  from p r x b br z zr show ?thesis by blast
qed

theorem handleSeek_witness:
  "handleSeek (\<lambda>x. x) \<lparr>clientX = 75, rect_left = 50, rect_width = 100\<rparr>
       (player_init\<lparr>audioDuration := Num 8\<rparr>)
     = (player_init\<lparr>audioDuration := Num 8, currentTime := Num 2\<rparr>, [SetCurrentTime 2])
   \<and> (0::real) \<le> 2 \<and> (2::real) \<le> 8"
proof -
  let ?e = "\<lparr>clientX = 75, rect_left = 50, rect_width = 100\<rparr>"
  have a: "(0::real) < 8" and b: "0 < rect_width ?e" by simp_all
  show ?thesis
    using handleSeek_unclamped [OF a b, of "player_init\<lparr>audioDuration := Num 8\<rparr>" "\<lambda>x. x"
        recorder_init host_webm]
    by (simp add: player_init_def)
qed

text \<open>
  C5 as stated fails: a fraction outside \<open>[0, 1]\<close> is not clamped. At \<open>f = 3\<close> and
  duration 10 the component assigns 30, and at \<open>f = -1/2\<close> it assigns \<open>-5\<close>. On these
  numbers the arithmetic of doubles is exact.
\<close>

theorem handleSeek_counterexample:
  "handleSeek (\<lambda>x. x) \<lparr>clientX = 300, rect_left = 0, rect_width = 100\<rparr>
       (player_init\<lparr>audioDuration := Num 10\<rparr>)
     = (player_init\<lparr>audioDuration := Num 10, currentTime := Num 30\<rparr>, [SetCurrentTime 30])
   \<and> js_gt (Num 30) (audioDuration (player_init\<lparr>audioDuration := Num 10\<rparr>))
   \<and> handleSeek (\<lambda>x. x) \<lparr>clientX = 0, rect_left = 50, rect_width = 100\<rparr>
       (player_init\<lparr>audioDuration := Num 10\<rparr>)
     = (player_init\<lparr>audioDuration := Num 10, currentTime := Num (- 5)\<rparr>, [SetCurrentTime (- 5)])"
  by (simp add: handleSeek_def player_init_def Let_def)

section \<open>Claims about the recorder\<close>

text \<open>
  C10. With no completed blob (\<open>audioBlob\<close> is null) the send action does nothing:
  no \<open>onSend\<close>, no \<open>onClose\<close>, the state unchanged, in every version; in the version
  that also tests the elapsed time, the same holds when \<open>recordingTime\<close> is 0.
\<close>

theorem handleSend_noop:
  "(audioBlob w = None \<longrightarrow> handleSend v h w = (w, []))
   \<and> (recordingTime w = 0 \<longrightarrow> handleSend Manual h w = (w, []))"
  by (cases v) (simp_all add: handleSend_def split: option.splits)

theorem handleSend_noop_witness:
  "audioBlob recorder_init = None
   \<and> handleSend Preview host_webm recorder_init = (recorder_init, [])
   \<and> recordingTime (recorder_init\<lparr>audioBlob := Some chunk3\<rparr>) = 0
   \<and> handleSend Manual host_webm (recorder_init\<lparr>audioBlob := Some chunk3\<rparr>)
       = (recorder_init\<lparr>audioBlob := Some chunk3\<rparr>, [])"
proof -
  have a: "audioBlob recorder_init = None" by (simp add: recorder_init_def)
  have b: "recordingTime (recorder_init\<lparr>audioBlob := Some chunk3\<rparr>) = 0"
    by (simp add: recorder_init_def)
  show ?thesis
    using a b handleSend_noop [of recorder_init Preview host_webm]
      handleSend_noop [of "recorder_init\<lparr>audioBlob := Some chunk3\<rparr>" Preview host_webm]
    by simp
qed

subsection \<open>Evaluation and the messages sent\<close>

lemmas rec_defs0 = recorder_step_def handle_def setOpen_def useEffect_isOpen_def useEffect_timer_def
  recorder_init_def startRecording_def startRecording_granted_def startRecording_denied_def
  startRecording_catch_def cleanup_def stop_tracks_def
  stop_mediaRecorder_def onstop_def onstop_timeout_def ondataavailable_def stopRecording_def
  handleCancel_def handleSend_def reRecord_def tick_def voiceMessage_def Blob_new_def blob_size_def
  audioRef_current_def playAudio_def pauseAudio_def handleAudioLoadedMetadata_def
  handleAudioTimeUpdate_def handleAudioEnded_def probe_loadedmetadata_def handleSeek_rec_def
  pauseRecording_def resumeRecording_def

lemmas rec_defs = rec_defs0 MediaRecorder_new_def mimeType_option_def

lemma sent_append: "sent (xs @ ys) = sent xs @ sent ys"
  by (induction xs rule: sent.induct) simp_all

lemma sent_cleanup: "sent (snd (cleanup v u w)) = []"
  by (cases u) (simp_all add: cleanup_def Let_def)

lemma sent_startRecording: "sent (snd (startRecording h rt w)) = []"
  by (simp add: startRecording_def startRecording_catch_def)

lemma sent_useEffect_isOpen: "sent (snd (useEffect_isOpen v h r w)) = []"
  by (simp add: useEffect_isOpen_def Let_def case_prod_beta sent_cleanup sent_startRecording)

lemma sent_setOpen: "sent (snd (setOpen v h b w)) = []"
  by (simp add: setOpen_def Let_def case_prod_beta sent_append sent_cleanup sent_useEffect_isOpen)

lemma sent_granted: "sent (snd (startRecording_granted v h rt w)) = []"
  by (simp add: startRecording_granted_def startRecording_catch_def Let_def split: option.splits)

lemma sent_denied: "sent (snd (startRecording_denied w)) = []"
  by (simp add: startRecording_denied_def startRecording_catch_def)

lemma sent_onstop: "sent (snd (onstop v i w)) = []"
  by (cases v) (simp_all add: onstop_def Let_def)

lemma sent_handleCancel: "sent (snd (handleCancel v w)) = []"
  by (simp add: handleCancel_def case_prod_beta sent_append sent_cleanup)

lemma sent_reRecord: "sent (snd (reRecord v h w)) = []"
  by (simp add: reRecord_def case_prod_beta sent_append sent_cleanup sent_startRecording)

lemma sent_misc:
  "sent (snd (tick w)) = []"
  "sent (snd (ondataavailable d w)) = []"
  "sent (snd (stopRecording v w)) = []"
  "sent (snd (pauseRecording w)) = []"
  "sent (snd (resumeRecording w)) = []"
  "sent (snd (playAudio v w)) = []"
  "sent (snd (pauseAudio w)) = []"
  "sent (snd (handleAudioTimeUpdate t w)) = []"
  "sent (snd (handleAudioEnded w)) = []"
  "sent (snd (handleAudioLoadedMetadata t w)) = []"
  "sent (snd (probe_loadedmetadata t w)) = []"
  "sent (snd (handleSeek_rec h e w)) = []"
  by (simp_all add: tick_def ondataavailable_def stopRecording_def pauseRecording_def
      resumeRecording_def playAudio_def pauseAudio_def handleAudioTimeUpdate_def
      handleAudioEnded_def handleAudioLoadedMetadata_def probe_loadedmetadata_def
      handleSeek_rec_def Let_def split: option.splits jsnum.splits)

lemmas sent_nothing = sent_cleanup sent_startRecording sent_setOpen sent_granted
  sent_denied sent_onstop sent_handleCancel sent_reRecord sent_misc

lemma sent_onstop_timeout:
  "sent (snd (onstop_timeout b rt w)) = (if 0 < rt then [voiceMessage b (Num (real rt))] else [])"
  by (simp add: onstop_timeout_def)

text \<open>An \<open>OnSend\<close> comes from \<open>handleSend\<close> or from the timeout of \<open>AutoSend\<close>.\<close>

lemma sent_handle:
  "sent (snd (handle v h ev w)) =
     (case ev of
        ClickSend \<Rightarrow>
          if isOpen w \<and> audioBlob w \<noteq> None \<and> v \<noteq> AutoSend \<and> \<not> (v = Manual \<and> isRecording w)
          then sent (snd (handleSend v h w)) else []
      | Timeout \<Rightarrow>
          (case timeouts w of
             (b, rt) # rest \<Rightarrow> if v = AutoSend \<and> 0 < rt then [voiceMessage b (Num (real rt))] else []
           | [] \<Rightarrow> [])
      | _ \<Rightarrow> [])"
  by (cases ev) (auto simp: handle_def sent_nothing sent_onstop_timeout split: list.splits)

lemma voiceMessage_shape:
  "msg_type (voiceMessage b d) = ''voice''"
  "msg_audioBlob (voiceMessage b d) = b"
  "msg_size (voiceMessage b d) = blob_size b"
  "msg_rawDuration (voiceMessage b d) = Some d"
  "msg_mimeType (voiceMessage b d) = Some (blob_type b)"
  "msg_duration (voiceMessage b d) = None"
  "msg_audioUrl (voiceMessage b d) = None"
  by (simp_all add: voiceMessage_def)

lemma sent_handleSend:
  "sent (snd (handleSend v h w)) =
     (case v of
        Preview \<Rightarrow> (case audioBlob w of None \<Rightarrow> [] | Some b \<Rightarrow> [voiceMessage b (duration w)])
      | Pausable \<Rightarrow>
          (case (audioBlob w, audioUrl w) of
             (Some b, Some u) \<Rightarrow>
               [\<lparr>msg_type = ''voice'', msg_audioBlob = b, msg_audioUrl = Some u,
                 msg_rawDuration = None,
                 msg_duration = Some (formatTime_rec (rounding h) (render h) (duration w)),
                 msg_size = blob_size b, msg_mimeType = None\<rparr>]
           | _ \<Rightarrow> [])
      | Manual \<Rightarrow>
          (case audioBlob w of
             None \<Rightarrow> []
           | Some b \<Rightarrow> if 0 < recordingTime w
                       then [voiceMessage b (Num (real (recordingTime w)))] else [])
      | AutoSend \<Rightarrow> [])"
  by (cases v) (simp_all add: handleSend_def split: option.splits)

lemma onstop_blob:
  assumes "i < length (recorders w)"
  shows "audioBlob (fst (onstop v i w)) =
           Some (Blob_new (chunksRef w)
                  (if v = AutoSend then ''audio/webm;codecs=opus''
                   else if mr_mimeType (recorders w ! i) = [] then ''audio/webm''
                   else mr_mimeType (recorders w ! i)))"
    and "v = AutoSend \<longrightarrow>
           timeouts (fst (onstop v i w)) =
             timeouts w @ [(Blob_new (chunksRef w) ''audio/webm;codecs=opus'',
                            mr_recordingTime (recorders w ! i))]"
  using assms by (cases v; simp add: onstop_def Let_def)+

text \<open>
  C3, as the code has it. Every message handed to \<open>onSend\<close> has \<open>type\<close> \<open>voice\<close>,
  the recorded blob as \<open>audioBlob\<close> and a \<open>size\<close> equal to that blob's byte count.
  The blob is the one in the \<open>audioBlob\<close> state (in \<open>AutoSend\<close>, the one the timeout
  was armed with), which the \<open>onstop\<close> handler built from the chunks gathered in
  \<open>chunksRef\<close>. In \<open>Preview\<close>, \<open>Manual\<close> and \<open>AutoSend\<close> the message carries a numeric
  \<open>rawDuration\<close> and the blob's type string as \<open>mimeType\<close>. In \<open>Pausable\<close> it carries
  the object URL and the duration as the text \<open>formatTime(duration)\<close>, and neither a
  numeric duration nor a \<open>mimeType\<close>.
\<close>

theorem onSend_message_shape:
  assumes "m \<in> set (sent (snd (recorder_step v h ev w)))"
  shows "msg_type m = ''voice'' \<and> msg_size m = blob_size (msg_audioBlob m)
     \<and> (if v = AutoSend
        then \<exists>rt rest. timeouts w = (msg_audioBlob m, rt) # rest \<and> 0 < rt
               \<and> msg_rawDuration m = Some (Num (real rt))
        else audioBlob w = Some (msg_audioBlob m))
     \<and> (if v = Pausable
        then msg_audioUrl m = audioUrl w \<and> audioUrl w \<noteq> None
           \<and> msg_duration m = Some (formatTime_rec (rounding h) (render h) (duration w))
           \<and> msg_rawDuration m = None \<and> msg_mimeType m = None
        else msg_audioUrl m = None \<and> msg_duration m = None
           \<and> msg_mimeType m = Some (blob_type (msg_audioBlob m))
           \<and> (case v of
                 Preview \<Rightarrow> msg_rawDuration m = Some (duration w)
               | Manual \<Rightarrow> msg_rawDuration m = Some (Num (real (recordingTime w)))
                           \<and> 0 < recordingTime w
               | _ \<Rightarrow> \<exists>rt. msg_rawDuration m = Some (Num (real rt)) \<and> 0 < rt))
     \<and> (i < length (recorders w') \<longrightarrow>
          audioBlob (fst (onstop v i w')) =
            Some (Blob_new (chunksRef w')
                   (if v = AutoSend then ''audio/webm;codecs=opus''
                    else if mr_mimeType (recorders w' ! i) = [] then ''audio/webm''
                    else mr_mimeType (recorders w' ! i)))
          \<and> (v = AutoSend \<longrightarrow>
               timeouts (fst (onstop v i w')) =
                 timeouts w' @ [(Blob_new (chunksRef w') ''audio/webm;codecs=opus'',
                                mr_recordingTime (recorders w' ! i))]))"
proof -
  from assms have h: "m \<in> set (sent (snd (handle v h ev w)))"
    by (simp add: recorder_step_def case_prod_beta)
  have stop: "i < length (recorders w') \<longrightarrow>
          audioBlob (fst (onstop v i w')) =
            Some (Blob_new (chunksRef w')
                   (if v = AutoSend then ''audio/webm;codecs=opus''
                    else if mr_mimeType (recorders w' ! i) = [] then ''audio/webm''
                    else mr_mimeType (recorders w' ! i)))
          \<and> (v = AutoSend \<longrightarrow>
               timeouts (fst (onstop v i w')) =
                 timeouts w' @ [(Blob_new (chunksRef w') ''audio/webm;codecs=opus'',
                                mr_recordingTime (recorders w' ! i))])"
    using onstop_blob [of i w' v] by blast
  have main: "msg_type m = ''voice'' \<and> msg_size m = blob_size (msg_audioBlob m)
     \<and> (if v = AutoSend
        then \<exists>rt rest. timeouts w = (msg_audioBlob m, rt) # rest \<and> 0 < rt
               \<and> msg_rawDuration m = Some (Num (real rt))
        else audioBlob w = Some (msg_audioBlob m))
     \<and> (if v = Pausable
        then msg_audioUrl m = audioUrl w \<and> audioUrl w \<noteq> None
           \<and> msg_duration m = Some (formatTime_rec (rounding h) (render h) (duration w))
           \<and> msg_rawDuration m = None \<and> msg_mimeType m = None
        else msg_audioUrl m = None \<and> msg_duration m = None
           \<and> msg_mimeType m = Some (blob_type (msg_audioBlob m))
           \<and> (case v of
                 Preview \<Rightarrow> msg_rawDuration m = Some (duration w)
               | Manual \<Rightarrow> msg_rawDuration m = Some (Num (real (recordingTime w)))
                           \<and> 0 < recordingTime w
               | _ \<Rightarrow> \<exists>rt. msg_rawDuration m = Some (Num (real rt)) \<and> 0 < rt))"
  proof (cases ev)
    case ClickSend
    with h have s: "m \<in> set (sent (snd (handleSend v h w)))" and na: "v \<noteq> AutoSend"
      by (simp_all add: sent_handle split: if_splits)
    show ?thesis
    proof (cases v)
      case Pausable
      show ?thesis
      proof (cases "audioBlob w")
        case None
        with s Pausable show ?thesis by (simp add: sent_handleSend)
      next
        case b: (Some b)
        show ?thesis
        proof (cases "audioUrl w")
          case None
          with s Pausable b show ?thesis by (simp add: sent_handleSend)
        next
          case (Some u)
          with s Pausable b show ?thesis by (simp add: sent_handleSend)
        qed
      qed
    qed (use s na in \<open>auto simp: sent_handleSend voiceMessage_shape split: option.splits if_splits\<close>)
  next
    case Timeout
    with h have "\<exists>b rt rest. v = AutoSend \<and> 0 < rt \<and> m = voiceMessage b (Num (real rt))
        \<and> timeouts w = (b, rt) # rest"
      by (cases "timeouts w") (auto simp: sent_handle split: if_splits)
    then obtain b rt rest where "v = AutoSend" "0 < rt" "m = voiceMessage b (Num (real rt))"
      "timeouts w = (b, rt) # rest"
      by blast
    then show ?thesis by (auto simp: voiceMessage_shape)
  qed (use h in \<open>simp_all add: sent_handle\<close>)
  from main stop show ?thesis by blast
qed

theorem onSend_message_shape_witness:
  "voiceMessage (chunk3\<lparr>blob_type := ''audio/webm''\<rparr>) (Num 3.4)
     \<in> set (sent (snd (recorder_step Preview host_webm ClickSend
          (fst (run Preview host_webm
            [Grant, Tick, Tick, Tick, DataAvailable chunk3, ClickStop, StopEvent,
             AudioLoadedMetadata (Num 3.4)]
            (mount Preview host_webm True))))))
   \<and> msg_type (voiceMessage (chunk3\<lparr>blob_type := ''audio/webm''\<rparr>) (Num 3.4)) = ''voice''
   \<and> msg_mimeType (voiceMessage (chunk3\<lparr>blob_type := ''audio/webm''\<rparr>) (Num 3.4)) = Some ''audio/webm''
   \<and> msg_size (voiceMessage (chunk3\<lparr>blob_type := ''audio/webm''\<rparr>) (Num 3.4)) = 3
   \<and> audioBlob (fst (run Preview host_webm
          [Grant, Tick, Tick, Tick, DataAvailable chunk3, ClickStop, StopEvent,
           AudioLoadedMetadata (Num 3.4)]
          (mount Preview host_webm True)))
       = Some (chunk3\<lparr>blob_type := ''audio/webm''\<rparr>)"
proof -
  have mem: "voiceMessage (chunk3\<lparr>blob_type := ''audio/webm''\<rparr>) (Num 3.4)
     \<in> set (sent (snd (recorder_step Preview host_webm ClickSend
          (fst (run Preview host_webm
            [Grant, Tick, Tick, Tick, DataAvailable chunk3, ClickStop, StopEvent,
             AudioLoadedMetadata (Num 3.4)]
            (mount Preview host_webm True))))))"
    by (simp add: rec_defs mount_def host_webm_def chunk3_def Let_def)
  from onSend_message_shape [OF mem] mem show ?thesis
    by (simp add: voiceMessage_def chunk3_def blob_size_def)
qed

text \<open>
  C3 as stated fails on \<open>Pausable\<close>: after a five-second recording its message has
  the duration \<open>0:05\<close> as text, an \<open>audioUrl\<close>, and no \<open>mimeType\<close>.
\<close>

theorem onSend_message_shape_counterexample:
  "snd (run Pausable host_webm
          [Grant, Tick, Tick, Tick, Tick, Tick, DataAvailable chunk3, ClickStop, StopEvent,
           ProbeLoadedMetadata (Num 5), ClickSend]
          (mount Pausable host_webm True))
     = [GetUserMedia, CreateObjectURL 0,
        OnSend \<lparr>msg_type = ''voice'', msg_audioBlob = chunk3\<lparr>blob_type := ''audio/webm''\<rparr>,
                msg_audioUrl = Some 0, msg_rawDuration = None, msg_duration = Some ''0:05'',
                msg_size = 3, msg_mimeType = None\<rparr>,
        OnClose]"
  by (simp add: rec_defs mount_def host_webm_def chunk3_def Let_def formatTime_rec_def
      trunc_def show_int_def show_nat_small padStart_def digit_char_def)

subsection \<open>Opening the widget\<close>

lemma cleanup_state:
  "isRecording (fst (cleanup v u w)) = False"
  "timerRef (fst (cleanup v u w)) = False"
  "recordingTime (fst (cleanup v u w)) = 0"
  "audioBlob (fst (cleanup v u w)) = None"
  "isOpen (fst (cleanup v u w)) = isOpen w"
  "requests (fst (cleanup v u w)) = requests w"
  "v = Pausable \<Longrightarrow> isPaused (fst (cleanup v u w)) = False"
  "v \<noteq> Pausable \<Longrightarrow> isPaused (fst (cleanup v u w)) = isPaused w"
  by (simp_all add: cleanup_def Let_def stop_tracks_def stop_mediaRecorder_def split: option.splits)

lemma setOpen_True_state:
  assumes "\<not> isOpen w"
  shows "isOpen (fst (setOpen v h True w))"
    "\<not> isRecording (fst (setOpen v h True w))"
    "v = Pausable \<Longrightarrow> \<not> isPaused (fst (setOpen v h True w))"
    "mediaDevices h \<Longrightarrow> requests (fst (setOpen v h True w)) = requests w @ [recordingTime w]"
    "mediaDevices h \<Longrightarrow>
       snd (setOpen v h True w)
         = snd (cleanup v (effect_audioUrl w) (w\<lparr>isOpen := True\<rparr>)) @ [GetUserMedia]"
    "\<not> mediaDevices h \<Longrightarrow> requests (fst (setOpen v h True w)) = requests w"
    "\<not> mediaDevices h \<Longrightarrow>
       snd (setOpen v h True w)
         = snd (cleanup v (effect_audioUrl w) (w\<lparr>isOpen := True\<rparr>)) @ startRecording_catch"
  using assms
  by (simp_all add: setOpen_def useEffect_isOpen_def startRecording_def Let_def case_prod_beta
      cleanup_state)

lemma granted_state:
  "MediaRecorder_new h (mimeType_option v h) = None \<Longrightarrow>
     isRecording (fst (startRecording_granted v h rt w)) = isRecording w
     \<and> isPaused (fst (startRecording_granted v h rt w)) = isPaused w
     \<and> isOpen (fst (startRecording_granted v h rt w)) = isOpen w
     \<and> snd (startRecording_granted v h rt w) = startRecording_catch"
  "MediaRecorder_new h (mimeType_option v h) = Some mt \<Longrightarrow>
     isRecording (fst (startRecording_granted v h rt w))
     \<and> recordingTime (fst (startRecording_granted v h rt w)) = 0
     \<and> isPaused (fst (startRecording_granted v h rt w)) = isPaused w
     \<and> isOpen (fst (startRecording_granted v h rt w)) = isOpen w
     \<and> snd (startRecording_granted v h rt w) = []"
  by (simp_all add: startRecording_granted_def Let_def)

lemma step_fields:
  "fst (recorder_step v h ev w) = useEffect_timer v (fst (handle v h ev w))"
  "snd (recorder_step v h ev w) = snd (handle v h ev w)"
  by (simp_all add: recorder_step_def case_prod_beta)

lemma timer_fields:
  "isRecording (useEffect_timer v w) = isRecording w"
  "isPaused (useEffect_timer v w) = isPaused w"
  "isOpen (useEffect_timer v w) = isOpen w"
  "requests (useEffect_timer v w) = requests w"
  "recordingTime (useEffect_timer v w) = recordingTime w"
  "timerRef (useEffect_timer v w) = (isRecording w \<and> \<not> (v = Pausable \<and> isPaused w))"
  by (simp_all add: useEffect_timer_def)

lemma answer_outcomes:
  assumes "requests w1 = rt # rest" "\<not> isRecording w1" "\<not> (v = Pausable \<and> isPaused w1)"
    and "answer = Grant \<or> answer = Deny"
  shows "recording_started (recorder_step v h answer w1) \<and> answer = Grant
           \<and> MediaRecorder_new h (mimeType_option v h) \<noteq> None
       \<or> closed_with_alert (recorder_step v h answer w1)
           \<and> (answer = Deny \<or> MediaRecorder_new h (mimeType_option v h) = None)"
proof (cases "answer = Deny")
  case True
  then show ?thesis using assms(1,2)
    by (simp add: closed_with_alert_def step_fields timer_fields handle_def
        startRecording_denied_def startRecording_catch_def)
next
  case False
  with assms(4) have g: "answer = Grant" by simp
  show ?thesis
  proof (cases "MediaRecorder_new h (mimeType_option v h)")
    case None
    then show ?thesis using assms(1,2) g
      by (simp add: closed_with_alert_def step_fields timer_fields handle_def granted_state(1)
          startRecording_catch_def)
  next
    case (Some mt)
    then show ?thesis using assms(1,2,3) g
      by (simp add: recording_started_def step_fields timer_fields handle_def granted_state(2))
  qed
qed

text \<open>
  While a device request is unanswered and nothing records, no event other than the
  host's answer starts a recording, pauses one, or takes the request from the head of
  the queue.
\<close>

lemma startRecording_state:
  "isRecording (fst (startRecording h rt w)) = isRecording w"
  "isPaused (fst (startRecording h rt w)) = isPaused w"
  "\<exists>more. requests (fst (startRecording h rt w)) = requests w @ more"
  by (simp_all add: startRecording_def)

lemma setOpen_state:
  "\<not> isRecording w \<Longrightarrow> \<not> isRecording (fst (setOpen v h b w))"
  "\<not> (v = Pausable \<and> isPaused w) \<Longrightarrow> \<not> (v = Pausable \<and> isPaused (fst (setOpen v h b w)))"
  "\<exists>more. requests (fst (setOpen v h b w)) = requests w @ more"
  by (auto simp: setOpen_def useEffect_isOpen_def startRecording_def Let_def case_prod_beta
      cleanup_state)

lemma onstop_state:
  "isRecording (fst (onstop v i w)) = isRecording w"
  "isPaused (fst (onstop v i w)) = isPaused w"
  "requests (fst (onstop v i w)) = requests w"
  by (cases v; simp add: onstop_def Let_def)+

lemma pending_handle:
  assumes "requests w = rt # rest" "\<not> isRecording w" "\<not> (v = Pausable \<and> isPaused w)"
    and "ev \<noteq> Grant" "ev \<noteq> Deny"
  shows "(\<exists>rest'. requests (fst (handle v h ev w)) = rt # rest')
       \<and> \<not> isRecording (fst (handle v h ev w))
       \<and> \<not> (v = Pausable \<and> isPaused (fst (handle v h ev w)))"
proof (cases ev)
  case (SetOpen b)
  from setOpen_state(3) [of v h b w] obtain more
    where "requests (fst (setOpen v h b w)) = requests w @ more" by blast
  with assms(1,2,3) setOpen_state(1,2) [where w = w and v = v and h = h and b = b] show ?thesis
    by (simp add: SetOpen handle_def)
next
  case ClickStart
  from startRecording_state(3) [of h "recordingTime w" w] obtain more
    where "requests (fst (startRecording h (recordingTime w) w)) = requests w @ more" by blast
  with assms(1,2,3) show ?thesis
    by (simp add: ClickStart handle_def startRecording_state(1,2))
next
  case ClickReRecord
  from startRecording_state(3) [of h "recordingTime w" "fst (cleanup v (audioUrl w) w)"]
  obtain more
    where "requests (fst (startRecording h (recordingTime w) (fst (cleanup v (audioUrl w) w))))
             = requests w @ more"
    by (auto simp: cleanup_state)
  with assms(1,2,3) show ?thesis
    by (auto simp: ClickReRecord handle_def reRecord_def case_prod_beta startRecording_state(1,2)
        cleanup_state)
next
  case StopEvent
  with assms(1,2,3) show ?thesis
    by (cases "stop_events w") (simp_all add: handle_def onstop_state)
next
  case Timeout
  with assms(1,2,3) show ?thesis
    by (cases "timeouts w") (auto simp: handle_def onstop_timeout_def split: if_splits)
next
  case ClickCancel
  with assms(1,2,3) show ?thesis
    by (auto simp: handle_def handleCancel_def case_prod_beta cleanup_state)
next
  case ClickSend
  with assms(1,2,3) show ?thesis
    by (cases v; cases "audioBlob w"; cases "audioUrl w"; simp add: handle_def handleSend_def)
next
  case (ClickSeekAudio e)
  with assms(1,2,3) show ?thesis
    by (auto simp: handle_def handleSeek_rec_def Let_def split: jsnum.splits)
qed (use assms in \<open>auto simp: handle_def tick_def ondataavailable_def probe_loadedmetadata_def
      handleAudioLoadedMetadata_def handleAudioTimeUpdate_def handleAudioEnded_def
      playAudio_def pauseAudio_def pauseRecording_def resumeRecording_def stopRecording_def
      split: if_splits\<close>)

lemma pending_run:
  assumes "list_all (\<lambda>ev. ev \<noteq> Grant \<and> ev \<noteq> Deny) evs"
    and "requests w = rt # rest" "\<not> isRecording w" "\<not> (v = Pausable \<and> isPaused w)"
  shows "(\<exists>rest'. requests (fst (run v h evs (w, out))) = rt # rest')
       \<and> \<not> isRecording (fst (run v h evs (w, out)))
       \<and> \<not> (v = Pausable \<and> isPaused (fst (run v h evs (w, out))))"
  using assms
proof (induction evs arbitrary: w out rest)
  case Nil
  then show ?case by simp
next
  case (Cons ev evs)
  from Cons.prems(1) have ev: "ev \<noteq> Grant" "ev \<noteq> Deny"
    and evs: "list_all (\<lambda>ev. ev \<noteq> Grant \<and> ev \<noteq> Deny) evs" by simp_all
  let ?w = "fst (recorder_step v h ev w)"
  from pending_handle [OF Cons.prems(2,3,4) ev, of h]
  obtain rest' where w': "requests ?w = rt # rest'" "\<not> isRecording ?w"
    "\<not> (v = Pausable \<and> isPaused ?w)"
    by (auto simp: step_fields timer_fields)
  from Cons.IH [OF evs w', of "out @ snd (recorder_step v h ev w)"]
  show ?case by (simp add: case_prod_beta)
qed

lemma mount_True_state:
  "isOpen (fst (mount v h True))" "\<not> isRecording (fst (mount v h True))"
  "\<not> isPaused (fst (mount v h True))" "\<not> timerRef (fst (mount v h True))"
  "mediaDevices h \<Longrightarrow> requests (fst (mount v h True)) = [0]"
  "mediaDevices h \<Longrightarrow> snd (mount v h True) = [GetUserMedia]"
  "\<not> mediaDevices h \<Longrightarrow> requests (fst (mount v h True)) = []"
  "\<not> mediaDevices h \<Longrightarrow> snd (mount v h True) = startRecording_catch"
  by (simp_all add: mount_def useEffect_isOpen_def startRecording_def recorder_init_def Let_def)

text \<open>
  C4, as the code has it. Take an opening of the recorder (the parent turns \<open>isOpen\<close>
  on, or mounts the component open) made while no earlier device request is
  unanswered. On a host with \<open>navigator.mediaDevices\<close> the opening makes one device
  request. Whatever happens before the host answers it, at the answer either the
  recording has started (\<open>isRecording\<close>, \<open>recordingTime = 0\<close>, the timer running), and
  then access was granted and the \<open>MediaRecorder\<close> constructor accepted the MIME type;
  or the error is logged, the alert shown and \<open>onClose\<close> called with nothing
  recording, and then access was denied or the constructor threw. On a host without
  \<open>navigator.mediaDevices\<close> the opening makes no request: it logs the error, shows the
  alert and calls \<open>onClose\<close> itself. The two outcomes exclude each other.
\<close>

theorem opening_outcomes:
  assumes "\<not> isOpen w" and "requests w = []"
    and "list_all (\<lambda>ev. ev \<noteq> Grant \<and> ev \<noteq> Deny) evs"
    and "answer = Grant \<or> answer = Deny"
  shows "isOpen (fst (recorder_step v h (SetOpen True) w))
     \<and> (mediaDevices h \<longrightarrow>
          requests (fst (recorder_step v h (SetOpen True) w)) = [recordingTime w]
        \<and> snd (recorder_step v h (SetOpen True) w)
            = snd (cleanup v (effect_audioUrl w) (w\<lparr>isOpen := True\<rparr>)) @ [GetUserMedia]
        \<and> (recording_started
             (recorder_step v h answer
                (fst (run v h evs (recorder_step v h (SetOpen True) w))))
             \<and> answer = Grant \<and> MediaRecorder_new h (mimeType_option v h) \<noteq> None
           \<or> closed_with_alert
               (recorder_step v h answer
                  (fst (run v h evs (recorder_step v h (SetOpen True) w))))
             \<and> (answer = Deny \<or> MediaRecorder_new h (mimeType_option v h) = None))
        \<and> requests (fst (mount v h True)) = [0]
        \<and> snd (mount v h True) = [GetUserMedia]
        \<and> (recording_started (recorder_step v h answer (fst (run v h evs (mount v h True))))
             \<and> answer = Grant \<and> MediaRecorder_new h (mimeType_option v h) \<noteq> None
           \<or> closed_with_alert (recorder_step v h answer (fst (run v h evs (mount v h True))))
             \<and> (answer = Deny \<or> MediaRecorder_new h (mimeType_option v h) = None)))
     \<and> (\<not> mediaDevices h \<longrightarrow>
          requests (fst (recorder_step v h (SetOpen True) w)) = []
        \<and> \<not> isRecording (fst (recorder_step v h (SetOpen True) w))
        \<and> \<not> timerRef (fst (recorder_step v h (SetOpen True) w))
        \<and> snd (recorder_step v h (SetOpen True) w)
            = snd (cleanup v (effect_audioUrl w) (w\<lparr>isOpen := True\<rparr>)) @
              [ConsoleError ''Error starting recording:'',
               Alert ''Could not access microphone. Please check permissions.'',
               OnClose]
        \<and> requests (fst (mount v h True)) = []
        \<and> closed_with_alert (mount v h True))
     \<and> \<not> (recording_started r \<and> closed_with_alert r)"
proof -
  let ?o = "recorder_step v h (SetOpen True) w"
  have opened: "isOpen (fst ?o)"
    using assms(1) by (simp add: step_fields timer_fields handle_def setOpen_True_state)
  have idle: "\<not> isRecording (fst ?o)" "\<not> (v = Pausable \<and> isPaused (fst ?o))"
    "\<not> timerRef (fst ?o)"
    using assms(1) by (simp_all add: step_fields timer_fields handle_def setOpen_True_state)
  have excl: "\<not> (recording_started r \<and> closed_with_alert r)"
    by (simp add: recording_started_def closed_with_alert_def)
  have with_dev: "requests (fst ?o) = [recordingTime w]
        \<and> snd ?o = snd (cleanup v (effect_audioUrl w) (w\<lparr>isOpen := True\<rparr>)) @ [GetUserMedia]
        \<and> (recording_started (recorder_step v h answer (fst (run v h evs ?o)))
             \<and> answer = Grant \<and> MediaRecorder_new h (mimeType_option v h) \<noteq> None
           \<or> closed_with_alert (recorder_step v h answer (fst (run v h evs ?o)))
             \<and> (answer = Deny \<or> MediaRecorder_new h (mimeType_option v h) = None))
        \<and> requests (fst (mount v h True)) = [0]
        \<and> snd (mount v h True) = [GetUserMedia]
        \<and> (recording_started (recorder_step v h answer (fst (run v h evs (mount v h True))))
             \<and> answer = Grant \<and> MediaRecorder_new h (mimeType_option v h) \<noteq> None
           \<or> closed_with_alert (recorder_step v h answer (fst (run v h evs (mount v h True))))
             \<and> (answer = Deny \<or> MediaRecorder_new h (mimeType_option v h) = None))"
    if dev: "mediaDevices h"
  proof -
    have req: "requests (fst ?o) = [recordingTime w]"
      using assms(1,2) dev
      by (simp add: step_fields timer_fields handle_def setOpen_True_state)
    have out: "snd ?o = snd (cleanup v (effect_audioUrl w) (w\<lparr>isOpen := True\<rparr>)) @ [GetUserMedia]"
      using assms(1) dev by (simp add: step_fields handle_def setOpen_True_state)
    obtain w1 out1 where o: "?o = (w1, out1)" by (cases ?o)
    from req idle o have w1: "requests w1 = recordingTime w # []" "\<not> isRecording w1"
      "\<not> (v = Pausable \<and> isPaused w1)" by simp_all
    from pending_run [OF assms(3) w1, of h out1]
    obtain rest' where p: "requests (fst (run v h evs ?o)) = recordingTime w # rest'"
      "\<not> isRecording (fst (run v h evs ?o))"
      "\<not> (v = Pausable \<and> isPaused (fst (run v h evs ?o)))"
      by (auto simp: o)
    have a: "recording_started (recorder_step v h answer (fst (run v h evs ?o)))
             \<and> answer = Grant \<and> MediaRecorder_new h (mimeType_option v h) \<noteq> None
           \<or> closed_with_alert (recorder_step v h answer (fst (run v h evs ?o)))
             \<and> (answer = Deny \<or> MediaRecorder_new h (mimeType_option v h) = None)"
      using p assms(4) by (rule answer_outcomes)
    obtain w2 out2 where m: "mount v h True = (w2, out2)" by (cases "mount v h True")
    from mount_True_state [where v = v and h = h] dev m have w2: "requests w2 = 0 # []" "\<not> isRecording w2"
      "\<not> (v = Pausable \<and> isPaused w2)" by simp_all
    from pending_run [OF assms(3) w2, of h out2]
    obtain rest'' where q: "requests (fst (run v h evs (mount v h True))) = 0 # rest''"
      "\<not> isRecording (fst (run v h evs (mount v h True)))"
      "\<not> (v = Pausable \<and> isPaused (fst (run v h evs (mount v h True))))"
      by (auto simp: m)
    have b: "recording_started (recorder_step v h answer (fst (run v h evs (mount v h True))))
             \<and> answer = Grant \<and> MediaRecorder_new h (mimeType_option v h) \<noteq> None
           \<or> closed_with_alert (recorder_step v h answer (fst (run v h evs (mount v h True))))
             \<and> (answer = Deny \<or> MediaRecorder_new h (mimeType_option v h) = None)"
      using q assms(4) by (rule answer_outcomes)
    from req out a b mount_True_state(5,6) [OF dev, where v = v] show ?thesis by blast
  qed
  have without_dev: "requests (fst ?o) = []
        \<and> \<not> isRecording (fst ?o) \<and> \<not> timerRef (fst ?o)
        \<and> snd ?o = snd (cleanup v (effect_audioUrl w) (w\<lparr>isOpen := True\<rparr>)) @
              [ConsoleError ''Error starting recording:'',
               Alert ''Could not access microphone. Please check permissions.'',
               OnClose]
        \<and> requests (fst (mount v h True)) = []
        \<and> closed_with_alert (mount v h True)"
    if nodev: "\<not> mediaDevices h"
  proof -
    have req: "requests (fst ?o) = []"
      using assms(1,2) nodev
      by (simp add: step_fields timer_fields handle_def setOpen_True_state)
    have out: "snd ?o = snd (cleanup v (effect_audioUrl w) (w\<lparr>isOpen := True\<rparr>)) @
              [ConsoleError ''Error starting recording:'',
               Alert ''Could not access microphone. Please check permissions.'',
               OnClose]"
      using assms(1) nodev
      by (simp add: step_fields handle_def setOpen_True_state startRecording_catch_def)
    have m: "closed_with_alert (mount v h True)"
      using nodev by (simp add: closed_with_alert_def mount_True_state startRecording_catch_def)
    from req idle(1,3) out m mount_True_state(7) [OF nodev, where v = v] show ?thesis by blast
  qed
  from opened with_dev without_dev excl show ?thesis by blast
qed

theorem opening_outcomes_witness:
  "\<not> isOpen recorder_init \<and> requests recorder_init = []
   \<and> list_all (\<lambda>ev. ev \<noteq> Grant \<and> ev \<noteq> Deny) [ClickStart, Tick]
   \<and> mediaDevices host_webm
   \<and> recording_started (recorder_step Preview host_webm Grant
        (fst (run Preview host_webm [ClickStart, Tick]
               (recorder_step Preview host_webm (SetOpen True) recorder_init))))
   \<and> closed_with_alert (recorder_step Preview host_webm Deny
        (fst (run Preview host_webm [ClickStart, Tick]
               (recorder_step Preview host_webm (SetOpen True) recorder_init))))
   \<and> closed_with_alert (recorder_step AutoSend host_mp4 Grant
        (fst (run AutoSend host_mp4 []
               (recorder_step AutoSend host_mp4 (SetOpen True) recorder_init))))
   \<and> closed_with_alert (mount Manual (host_webm\<lparr>mediaDevices := False\<rparr>) True)"
proof -
  have a: "\<not> isOpen recorder_init" and b: "requests recorder_init = []"
    by (simp_all add: recorder_init_def)
  have e: "list_all (\<lambda>ev. ev \<noteq> Grant \<and> ev \<noteq> Deny) [ClickStart, Tick]"
    and e0: "list_all (\<lambda>ev. ev \<noteq> Grant \<and> ev \<noteq> Deny) []" by simp_all
  have g: "Grant = Grant \<or> Grant = Deny" and d: "Deny = Grant \<or> Deny = Deny" by simp_all
  have dev: "mediaDevices host_webm" "mediaDevices host_mp4"
    "\<not> mediaDevices (host_webm\<lparr>mediaDevices := False\<rparr>)"
    by (simp_all add: host_webm_def host_mp4_def)
  have nc: "MediaRecorder_new host_webm (mimeType_option Preview host_webm) \<noteq> None"
    "MediaRecorder_new host_mp4 (mimeType_option AutoSend host_mp4) = None"
    by (simp_all add: MediaRecorder_new_def mimeType_option_def host_webm_def host_mp4_def)
  from opening_outcomes [OF a b e g, of Preview host_webm]
    opening_outcomes [OF a b e d, of Preview host_webm]
    opening_outcomes [OF a b e0 g, of AutoSend host_mp4]
    opening_outcomes [OF a b e0 g, of Manual "host_webm\<lparr>mediaDevices := False\<rparr>"]
    a b e dev nc
  show ?thesis by simp
qed

text \<open>
  C4 as stated fails. The user cancels while the device request of the first opening
  is unanswered; the parent closes the widget and opens it again, and the host grants
  the first request and denies the second. The denial logs the error, shows the alert
  and calls \<open>onClose\<close> while the widget goes on recording: neither outcome of the
  claim. And a granted request ends with the alert and \<open>onClose\<close> when the
  \<open>MediaRecorder\<close> constructor throws, as in \<open>AutoSend\<close> on a host that records only
  MP4; the stream the host handed out stays live.
\<close>

theorem opening_outcomes_counterexample:
  "snd (recorder_step Preview host_webm Deny
          (fst (run Preview host_webm [ClickCancel, SetOpen False, SetOpen True, Grant]
                  (mount Preview host_webm True))))
     = [ConsoleError ''Error starting recording:'',
        Alert ''Could not access microphone. Please check permissions.'',
        OnClose]
   \<and> isRecording (fst (recorder_step Preview host_webm Deny
          (fst (run Preview host_webm [ClickCancel, SetOpen False, SetOpen True, Grant]
                  (mount Preview host_webm True)))))
   \<and> timerRef (fst (recorder_step Preview host_webm Deny
          (fst (run Preview host_webm [ClickCancel, SetOpen False, SetOpen True, Grant]
                  (mount Preview host_webm True)))))
   \<and> \<not> recording_started (recorder_step Preview host_webm Deny
          (fst (run Preview host_webm [ClickCancel, SetOpen False, SetOpen True, Grant]
                  (mount Preview host_webm True))))
   \<and> \<not> closed_with_alert (recorder_step Preview host_webm Deny
          (fst (run Preview host_webm [ClickCancel, SetOpen False, SetOpen True, Grant]
                  (mount Preview host_webm True))))
   \<and> closed_with_alert (recorder_step AutoSend host_mp4 Grant (fst (mount AutoSend host_mp4 True)))
   \<and> streams (fst (recorder_step AutoSend host_mp4 Grant (fst (mount AutoSend host_mp4 True))))
       = [True]"
  by (simp add: rec_defs mount_def recording_started_def closed_with_alert_def host_webm_def
      host_mp4_def Let_def)

subsection \<open>From the recording to the message\<close>

lemma run_append: "run v h (evs @ evs') acc = run v h evs' (run v h evs acc)"
proof (induction evs arbitrary: acc)
  case Nil
  show ?case by simp
next
  case (Cons ev evs)
  obtain w out where acc: "acc = (w, out)" by (cases acc)
  show ?case by (simp add: acc Cons case_prod_beta Let_def)
qed

lemma timer_on: "timerRef w \<Longrightarrow> w\<lparr>timerRef := True\<rparr> = w"
  by (cases w) simp

lemma capture_step:
  assumes "timerRef w" "isRecording w" "recorders w \<noteq> []" "\<not> (v = Pausable \<and> isPaused w)"
  shows "recorder_step v h Tick w = (w\<lparr>recordingTime := recordingTime w + 1\<rparr>, [])"
    "recorder_step v h (DataAvailable c) w =
       (w\<lparr>chunksRef := chunksRef w @ filter (\<lambda>c. 0 < blob_size c) [c]\<rparr>, [])"
proof -
  have t: "w\<lparr>timerRef := True\<rparr> = w" using assms(1) by (rule timer_on)
  have "recorder_step v h Tick w = (w\<lparr>timerRef := True\<rparr>\<lparr>recordingTime := recordingTime w + 1\<rparr>, [])"
    using assms by (auto simp: recorder_step_def handle_def tick_def useEffect_timer_def)
  then show "recorder_step v h Tick w = (w\<lparr>recordingTime := recordingTime w + 1\<rparr>, [])"
    by (simp only: t)
  have "recorder_step v h (DataAvailable c) w =
       (w\<lparr>timerRef := True\<rparr>\<lparr>chunksRef := chunksRef w @ filter (\<lambda>c. 0 < blob_size c) [c]\<rparr>, [])"
    using assms by (auto simp: recorder_step_def handle_def ondataavailable_def useEffect_timer_def)
  then show "recorder_step v h (DataAvailable c) w =
       (w\<lparr>chunksRef := chunksRef w @ filter (\<lambda>c. 0 < blob_size c) [c]\<rparr>, [])"
    by (simp only: t)
qed

lemma capture_run:
  assumes "list_all capture_event evs"
    and "timerRef w" "isRecording w" "recorders w \<noteq> []" "\<not> (v = Pausable \<and> isPaused w)"
  shows "run v h evs (w, out) =
     (w\<lparr>recordingTime := recordingTime w + count_list evs Tick,
        chunksRef := chunksRef w @ filter (\<lambda>c. 0 < blob_size c) (chunks_of evs)\<rparr>, out)"
  using assms
proof (induction evs arbitrary: w)
  case Nil
  show ?case by simp
next
  case (Cons ev evs)
  from Cons.prems(1) have rest: "list_all capture_event evs" and ev: "capture_event ev" by simp_all
  show ?case
  proof (cases ev)
    case Tick
    let ?w = "w\<lparr>recordingTime := recordingTime w + 1\<rparr>"
    have s: "recorder_step v h Tick w = (?w, [])"
      using Cons.prems(2-5) by (rule capture_step(1))
    have "run v h evs (?w, out) =
      (?w\<lparr>recordingTime := recordingTime ?w + count_list evs Tick,
          chunksRef := chunksRef ?w @ filter (\<lambda>c. 0 < blob_size c) (chunks_of evs)\<rparr>, out)"
      using rest Cons.prems(2-5) by (intro Cons.IH) simp_all
    then show ?thesis by (simp add: Tick s)
  next
    case (DataAvailable c)
    let ?w = "w\<lparr>chunksRef := chunksRef w @ filter (\<lambda>c. 0 < blob_size c) [c]\<rparr>"
    have s: "recorder_step v h (DataAvailable c) w = (?w, [])"
      using Cons.prems(2-5) by (rule capture_step(2))
    have "run v h evs (?w, out) =
      (?w\<lparr>recordingTime := recordingTime ?w + count_list evs Tick,
          chunksRef := chunksRef ?w @ filter (\<lambda>c. 0 < blob_size c) (chunks_of evs)\<rparr>, out)"
      using rest Cons.prems(2-5) by (intro Cons.IH) simp_all
    then show ?thesis by (simp add: DataAvailable s)
  qed (use ev in simp_all)
qed

lemma manual_ctor: "\<exists>mt. MediaRecorder_new h (mimeType_option Manual h) = Some mt"
  by (simp add: MediaRecorder_new_def mimeType_option_def)

lemma bytes_nonempty:
  "concat (map blob_bytes (filter (\<lambda>c. 0 < blob_size c) cs)) = concat (map blob_bytes cs)"
  by (induction cs) (simp_all add: blob_size_def)


text \<open>
  The send button of \<open>Manual\<close> reads \<open>recordingTime\<close> in the render of the click.
  Take an open widget whose device request is granted, with no \<open>stop\<close> event
  outstanding. A recording that runs through any stretch of ticks and data chunks and
  is then stopped has \<open>recordingTime\<close> equal to the number of ticks; once its \<open>stop\<close>
  event has built the blob, the send action hands \<open>onSend\<close> exactly one message, whose
  \<open>rawDuration\<close> is that number and whose blob holds the bytes of the chunks, when at
  least one tick was counted, and none otherwise.
\<close>

lemma manual_send_recordingTime:
  assumes "list_all capture_event evs"
    and "isOpen w0" and "requests w0 = rt # rest" and "stop_events w0 = []"
  shows "recordingTime (fst (run Manual h (Grant # evs @ [ClickStop]) (w0, []))) = count_list evs Tick
     \<and> (\<exists>b. blob_bytes b = concat (map blob_bytes (chunks_of evs))
          \<and> sent (snd (run Manual h (Grant # evs @ [ClickStop, StopEvent, ClickSend]) (w0, [])))
             = (if 0 < count_list evs Tick
                then [voiceMessage b (Num (real (count_list evs Tick)))] else []))"
proof -
  let ?n = "count_list evs Tick"
  let ?cs = "filter (\<lambda>c. 0 < blob_size c) (chunks_of evs)"
  obtain mt where mt: "MediaRecorder_new h (mimeType_option Manual h) = Some mt"
    using manual_ctor by blast
  define w1 where "w1 = fst (run Manual h [Grant] (w0, []))"
  have start: "run Manual h [Grant] (w0, []) = (w1, [])"
    using assms(3) by (simp add: w1_def rec_defs0 mt Let_def)
  have w1: "timerRef w1" "isRecording w1" "recorders w1 \<noteq> []" "\<not> (Manual = Pausable \<and> isPaused w1)"
    "recordingTime w1 = 0" "chunksRef w1 = []"
    using assms(3) by (simp_all add: w1_def rec_defs0 mt Let_def)
  define w2 where "w2 = w1\<lparr>recordingTime := ?n, chunksRef := ?cs\<rparr>"
  have capture: "run Manual h evs (w1, []) = (w2, [])"
    using capture_run [OF assms(1) w1(1-4), of h "[]"] by (simp add: w2_def w1(5,6))
  have "run Manual h ([Grant] @ evs) (w0, []) = run Manual h evs (run Manual h [Grant] (w0, []))"
    by (rule run_append)
  then have upto: "run Manual h (Grant # evs) (w0, []) = (w2, [])"
    by (simp only: start capture append_Cons append_Nil)
  have stop: "recordingTime (fst (run Manual h [ClickStop] (w2, []))) = ?n"
    using assms(2,3) by (simp add: w2_def w1_def rec_defs0 mt Let_def split: option.splits)
  have time: "recordingTime (fst (run Manual h (Grant # evs @ [ClickStop]) (w0, []))) = ?n"
    using run_append [of Manual h "Grant # evs" "[ClickStop]" "(w0, [])"]
    by (simp only: append_Cons upto stop)
  define b where "b = Blob_new ?cs (if mt = [] then ''audio/webm'' else mt)"
  have fin: "sent (snd (run Manual h [ClickStop, StopEvent, ClickSend] (w2, [])))
      = (if 0 < ?n then [voiceMessage b (Num (real ?n))] else [])"
    using assms(2,3,4) by (simp add: w2_def w1_def b_def rec_defs0 mt Let_def)
  have msg: "sent (snd (run Manual h (Grant # evs @ [ClickStop, StopEvent, ClickSend]) (w0, [])))
      = (if 0 < ?n then [voiceMessage b (Num (real ?n))] else [])"
    using run_append [of Manual h "Grant # evs" "[ClickStop, StopEvent, ClickSend]" "(w0, [])"]
    by (simp only: append_Cons upto fin)
  have bytes: "blob_bytes b = concat (map blob_bytes (chunks_of evs))"
    by (simp add: b_def Blob_new_def bytes_nonempty)
  from time bytes msg show ?thesis by blast
qed

lemma manual_send_recordingTime_example:
  "recordingTime (fst (run Manual host_webm
        (Grant # [Tick, DataAvailable chunk3, Tick, Tick] @ [ClickStop])
        (fst (mount Manual host_webm True), []))) = 3
   \<and> sent (snd (run Manual host_webm
        (Grant # [Tick, DataAvailable chunk3, Tick, Tick] @ [ClickStop, StopEvent, ClickSend])
        (fst (mount Manual host_webm True), [])))
       = [voiceMessage chunk3 (Num 3)]"
proof -
  have a: "list_all capture_event [Tick, DataAvailable chunk3, Tick, Tick]" by simp
  have b: "isOpen (fst (mount Manual host_webm True))"
    and c: "requests (fst (mount Manual host_webm True)) = [0]"
    and d: "stop_events (fst (mount Manual host_webm True)) = []"
    by (simp_all add: rec_defs0 mount_def host_webm_def Let_def)
  from manual_send_recordingTime [OF a b c d, of host_webm]
  show ?thesis by (simp add: rec_defs mount_def host_webm_def chunk3_def Let_def)
qed

subsection \<open>Runs on which the code departs from the specification\<close>

text \<open>
  C1. A stopped recording must give one message whose duration is the number of
  seconds the timer counted. The \<open>onstop\<close> handler of \<open>Preview\<close> calls
  \<open>setDuration(recordingTime)\<close>, and the timeout of \<open>AutoSend\<close> tests
  \<open>recordingTime > 0\<close> and sends \<open>rawDuration: recordingTime\<close>; both read the
  \<open>recordingTime\<close> of the render whose \<open>startRecording\<close> was called, which is the
  count before the recording began. So a first recording of three seconds is stopped
  at \<open>recordingTime = 3\<close> with \<open>duration = 0\<close>: a Send click in \<open>Preview\<close> sends
  \<open>rawDuration\<close> 0, or, once the preview audio has reported its metadata, the
  duration the host decoded (3.4 here); \<open>AutoSend\<close> sends nothing at all.
\<close>

theorem stale_recordingTime_sent:
  "recordingTime (fst (run Preview host_webm
          [Grant, Tick, Tick, Tick, DataAvailable chunk3, ClickStop, StopEvent]
          (mount Preview host_webm True))) = 3
   \<and> duration (fst (run Preview host_webm
          [Grant, Tick, Tick, Tick, DataAvailable chunk3, ClickStop, StopEvent]
          (mount Preview host_webm True))) = Num 0
   \<and> snd (run Preview host_webm
          [Grant, Tick, Tick, Tick, DataAvailable chunk3, ClickStop, StopEvent, ClickSend]
          (mount Preview host_webm True))
     = [GetUserMedia, CreateObjectURL 0,
        OnSend (voiceMessage (chunk3\<lparr>blob_type := ''audio/webm''\<rparr>) (Num 0)), OnClose]
   \<and> snd (run Preview host_webm
          [Grant, Tick, Tick, Tick, DataAvailable chunk3, ClickStop, StopEvent,
           AudioLoadedMetadata (Num 3.4), ClickSend]
          (mount Preview host_webm True))
     = [GetUserMedia, CreateObjectURL 0,
        OnSend (voiceMessage (chunk3\<lparr>blob_type := ''audio/webm''\<rparr>) (Num 3.4)), OnClose]
   \<and> recordingTime (fst (run AutoSend host_webm
          [Grant, Tick, Tick, Tick, DataAvailable chunk3, ClickStop, StopEvent]
          (mount AutoSend host_webm True))) = 3
   \<and> timeouts (fst (run AutoSend host_webm
          [Grant, Tick, Tick, Tick, DataAvailable chunk3, ClickStop, StopEvent]
          (mount AutoSend host_webm True))) = [(chunk3, 0)]
   \<and> snd (run AutoSend host_webm
          [Grant, Tick, Tick, Tick, DataAvailable chunk3, ClickStop, StopEvent, Timeout]
          (mount AutoSend host_webm True))
     = [GetUserMedia]"
  by (simp add: rec_defs mount_def host_webm_def chunk3_def Let_def)

text \<open>
  C2. Cancel must never cause a send. In \<open>AutoSend\<close> it does: a first recording of one
  second is stopped (its own timeout sends nothing, because the \<open>onstop\<close> closure
  still has \<open>recordingTime = 0\<close>); the user starts a second recording with the Start
  button and cancels it. Up to the cancel nothing was sent. The \<open>stop()\<close> inside
  \<open>cleanup\<close> then delivers the \<open>stop\<close> event, whose timeout finds \<open>recordingTime = 1\<close>
  in its closure and calls \<open>onSend\<close>. Cancel also releases only what exists when
  it runs: in every version, a cancel while the device request is unanswered leaves
  the request standing, and when the host grants it afterwards the closed widget
  holds a live stream, records, and counts seconds.
\<close>

theorem cancel_then_send:
  "snd (run AutoSend host_webm
          [Grant, Tick, DataAvailable chunk3, ClickStop, StopEvent, Timeout,
           ClickStart, Grant, Tick, Tick, ClickCancel]
          (mount AutoSend host_webm True))
     = [GetUserMedia, GetUserMedia, OnClose]
   \<and> snd (run AutoSend host_webm
          [Grant, Tick, DataAvailable chunk3, ClickStop, StopEvent, Timeout,
           ClickStart, Grant, Tick, Tick, ClickCancel,
           SetOpen False, DataAvailable chunk3, StopEvent, Timeout]
          (mount AutoSend host_webm True))
     = [GetUserMedia, GetUserMedia, OnClose,
        OnSend (voiceMessage chunk3 (Num 1)), OnClose]
   \<and> (let w = fst (run Preview host_webm [ClickCancel, SetOpen False, Grant, Tick]
                      (mount Preview host_webm True))
      in (isOpen w, live_streams w, active_recorders w, isRecording w, timerRef w, recordingTime w))
     = (False, 1, 1, True, True, 1)"
  by (simp add: rec_defs mount_def live_streams_def active_recorders_def host_webm_def chunk3_def
      Let_def)

text \<open>
  C7. One recorder instance must hold at most one live stream and one recorder that
  is not inactive. A click on the Start button while the device request of the
  opening is still unanswered makes a second request; when the host answers both,
  two streams are live and two recorders record, and the refs reach only the second
  pair. Stop, cancel and close release that pair only.
\<close>

theorem two_sessions:
  "(let w = fst (run Preview host_webm [ClickStart, Grant, Grant] (mount Preview host_webm True))
    in (live_streams w, active_recorders w, streamRef w, mediaRecorderRef w)) = (2, 2, Some 1, Some 1)
   \<and> (let w = fst (run Preview host_webm [ClickStart, Grant, Grant, ClickStop, StopEvent, ClickCancel, SetOpen False] (mount Preview host_webm True))
    in (live_streams w, active_recorders w, streamRef w, mediaRecorderRef w)) = (1, 1, Some 1, Some 1)"
  by (simp add: rec_defs mount_def live_streams_def active_recorders_def host_webm_def chunk3_def
      Let_def)

text \<open>
  C8. A rejected \<open>play()\<close> must be logged. \<open>Pausable\<close> calls \<open>play()\<close> with no
  \<open>.catch\<close>, so no code of the component runs on a rejection; \<open>Preview\<close>, on the same
  run, attaches the handler that logs.
\<close>

theorem playAudio_rejection_unhandled:
  "snd (run Pausable host_webm
          [Grant, Tick, DataAvailable chunk3, ClickStop, StopEvent, ClickPlayPauseAudio]
          (mount Pausable host_webm True))
     = [GetUserMedia, CreateObjectURL 0, AudioPlay None]
   \<and> play_rejected (AudioPlay None) = []
   \<and> snd (run Preview host_webm
          [Grant, Tick, DataAvailable chunk3, ClickStop, StopEvent, ClickPlayPauseAudio]
          (mount Preview host_webm True))
     = [GetUserMedia, CreateObjectURL 0, AudioPlay (Some ''Audio play failed:'')]
   \<and> play_rejected (AudioPlay (Some ''Audio play failed:'')) = [ConsoleError ''Audio play failed:'']"
  by (simp add: rec_defs mount_def host_webm_def chunk3_def Let_def)

end
